theory Spec2Isabelle
  imports Complex_Main "HOL-Library.Signed_Division"
begin

section \<open>Numeric conventions\<close>

text \<open>
  The analytics code computes in \<open>double\<close> and the scorer casts the result to \<open>int\<close>,
  so the arithmetic is modelled as the machine does it. A finite \<open>double\<close> is the real
  number it denotes, and every multiplication, division, addition and subtraction delivers
  the exact result rounded to the nearest \<open>double\<close>, ties to the even significand (53
  bits, least exponent -1022, each operation rounded on its own). A decimal literal of the
  source denotes the \<open>double\<close> nearest to it; literals such as 0.5, 1.0, 100.0 and 720.0
  are \<open>double\<close>s themselves. Comparisons, \<open>std::min\<close> and \<open>std::max\<close> are exact.
  Not-a-number and the infinities are not modelled: a result beyond the largest \<open>double\<close>
  stays finite here.
\<close>

definition round_half_even :: "real \<Rightarrow> int" where
  "round_half_even y =
     (let f = \<lfloor>y\<rfloor>; r = y - of_int f
      in if r < 1 / 2 then f else if r > 1 / 2 then f + 1 else if even f then f else f + 1)"

definition binade :: "real \<Rightarrow> int" where
  "binade x = max \<lfloor>log 2 \<bar>x\<bar>\<rfloor> (- 1022)"

definition to_double :: "real \<Rightarrow> real" where
  "to_double x =
     (if x = 0 then 0
      else of_int (round_half_even (x / 2 powi (binade x - 52))) * 2 powi (binade x - 52))"

text \<open>The reals that are \<open>double\<close>s: rounding leaves them as they are. The members of
  type \<open>double\<close> hold such values; a decimal \<open>d\<close> written in the source or handed in from
  outside stands for \<open>to_double d\<close>.\<close>

definition is_double :: "real \<Rightarrow> bool" where
  "is_double x \<longleftrightarrow> to_double x = x"

definition double_mul :: "real \<Rightarrow> real \<Rightarrow> real" where
  "double_mul x y = to_double (x * y)"

definition double_add :: "real \<Rightarrow> real \<Rightarrow> real" where
  "double_add x y = to_double (x + y)"

definition double_sub :: "real \<Rightarrow> real \<Rightarrow> real" where
  "double_sub x y = to_double (x - y)"

definition double_div :: "real \<Rightarrow> real \<Rightarrow> real" where
  "double_div x y = to_double (x / y)"

text \<open>
  C++ \<open>int\<close> has 32 bits. Signed arithmetic that leaves the range wraps around (the
  language leaves it open; the machine instruction wraps), and
  \<open>static_cast<int>\<close> of a \<open>double\<close> truncates toward zero; for a value whose truncation
  does not fit, the language leaves the result open and the conversion instruction of
  x86-64 delivers the least \<open>int\<close>, which is the value taken here. \<open>int64_t\<close> values and
  clock ticks are unbounded integers.
\<close>

definition INT_MIN :: int where
  "INT_MIN = - 2147483648"

definition INT_MAX :: int where
  "INT_MAX = 2147483647"

definition int32 :: "int \<Rightarrow> int" where
  "int32 i = (i + 2147483648) mod 4294967296 - 2147483648"

definition static_cast_int :: "real \<Rightarrow> int" where
  "static_cast_int x =
     (let t = (if 0 \<le> x then \<lfloor>x\<rfloor> else \<lceil>x\<rceil>)
      in if INT_MIN \<le> t \<and> t \<le> INT_MAX then t else INT_MIN)"

section \<open>Analytics: confidence scoring (analytics/src/scoring.cpp)\<close>

text \<open>The fields of \<open>struct Config\<close> (analytics/src/config.hpp) that the scorer reads.\<close>

record Config =
  actionable_base_threshold :: int
  risk_on_adj :: int
  risk_off_adj :: int
  hygiene_penalty :: int
  min_dq_for_actionable :: real
  max_rug_cap :: int
  headsup_min :: int
  headsup_max :: int
  high_conviction_min :: int

text \<open>The default member initialisers of config.hpp.\<close>

definition default_config :: Config where
  "default_config = \<lparr>
     actionable_base_threshold = 70,
     risk_on_adj = -10,
     risk_off_adj = 10,
     hygiene_penalty = 10,
     min_dq_for_actionable = to_double 0.7,
     max_rug_cap = 55,
     headsup_min = 60,
     headsup_max = 69,
     high_conviction_min = 85 \<rparr>"

text \<open>\<open>struct SignalResult\<close> (analytics/src/types.hpp).\<close>

record SignalResult =
  s1_liquidity :: real
  s2_volume :: real
  s3_momentum_1h :: real
  s4_momentum_24h :: real
  s5_volatility :: real
  s6_price_discovery :: real
  s7_rug_risk :: real
  s8_tradability :: real
  s9_relative_strength :: real
  s10_route_quality :: real
  n1_hygiene :: real
  data_quality :: real
  confidence_score :: int
  reasons :: "string list"
  band :: string
  entry_confirmed :: bool
  net_edge_ok :: bool

text \<open>The weighted sum of \<open>calculate_confidence\<close>, with the weights of its table: ten
  products, added from left to right.\<close>

definition weighted_sum :: "SignalResult \<Rightarrow> real" where
  "weighted_sum signals =
     double_add (double_add (double_add (double_add (double_add (double_add (double_add
       (double_add (double_add
          (double_mul (to_double 0.15) (s1_liquidity signals))
          (double_mul (to_double 0.15) (s2_volume signals)))
          (double_mul (to_double 0.10) (s3_momentum_1h signals)))
          (double_mul (to_double 0.10) (s4_momentum_24h signals)))
          (double_mul (to_double 0.05) (s5_volatility signals)))
          (double_mul (to_double 0.05) (s6_price_discovery signals)))
          (double_mul (to_double 0.20) (s7_rug_risk signals)))
          (double_mul (to_double 0.10) (s8_tradability signals)))
          (double_mul (to_double 0.05) (s9_relative_strength signals)))
          (double_mul (to_double 0.05) (s10_route_quality signals))"

definition calculate_confidence :: "Config \<Rightarrow> SignalResult \<Rightarrow> int" where
  "calculate_confidence cfg signals =
     (if data_quality signals < min_dq_for_actionable cfg
      then min 50 (static_cast_int (double_mul (data_quality signals) 100))
      else
        let base_score0 = static_cast_int (double_mul (weighted_sum signals) 100);
            base_score1 = (if n1_hygiene signals < 0.5
                           then int32 (base_score0 - hygiene_penalty cfg) else base_score0);
            base_score2 = (if s7_rug_risk signals < 0.5
                           then min base_score1 (max_rug_cap cfg) else base_score1)
        in max 0 (min 100 base_score2))"

definition determine_band :: "Config \<Rightarrow> int \<Rightarrow> bool \<Rightarrow> bool \<Rightarrow> string" where
  "determine_band cfg confidence_score' entry_confirmed' net_edge_ok' =
     (if \<not> entry_confirmed' then ''watch''
      else if \<not> net_edge_ok' then ''watch''
      else if confidence_score' \<ge> high_conviction_min cfg then ''high_conviction''
      else if confidence_score' \<ge> actionable_base_threshold cfg then ''actionable''
      else if confidence_score' \<ge> headsup_min cfg \<and> confidence_score' \<le> headsup_max cfg
        then ''heads_up''
      else ''watch'')"

definition apply_risk_adjustment :: "Config \<Rightarrow> int \<Rightarrow> bool \<Rightarrow> int" where
  "apply_risk_adjustment cfg base_score risk_on =
     (if risk_on then min 100 (int32 (base_score + risk_on_adj cfg))
      else max 0 (int32 (base_score + risk_off_adj cfg)))"

text \<open>
  The low-data-quality branch as the specification words it: the product of the data
  quality and 100, rounded to the nearest integer.
\<close>

definition spec_low_dq_confidence :: "real \<Rightarrow> int" where
  "spec_low_dq_confidence dq = min 50 (round (dq * 100))"

text \<open>Concrete signal results used for evaluation.\<close>

definition uniform_signals :: "real \<Rightarrow> real \<Rightarrow> real \<Rightarrow> SignalResult" where
  "uniform_signals s n dq = \<lparr>
     s1_liquidity = s, s2_volume = s, s3_momentum_1h = s, s4_momentum_24h = s,
     s5_volatility = s, s6_price_discovery = s, s7_rug_risk = s, s8_tradability = s,
     s9_relative_strength = s, s10_route_quality = s, n1_hygiene = n,
     data_quality = dq, confidence_score = 0, reasons = [], band = [],
     entry_confirmed = False, net_edge_ok = False \<rparr>"

section \<open>Analytics: rug-risk signal (analytics/src/signals.cpp)\<close>

text \<open>\<open>struct OHLCVBar\<close>, \<open>RouteInfo\<close>, \<open>MarketUpdate\<close> and \<open>TokenMetadata\<close> of
  analytics/src/types.hpp. Time points are ticks of the system clock.\<close>

record OHLCVBar =
  bar_open :: real
  bar_high :: real
  bar_low :: real
  bar_close :: real
  bar_volume_usd :: real

record RouteInfo =
  route_ok :: bool
  route_hops :: int
  route_deviation_pct :: real

record MarketUpdate =
  market_pool_id :: string
  mint_base :: string
  mint_quote :: string
  market_symbol :: string
  market_price :: real
  liq_usd :: real
  vol24h_usd :: real
  spread_pct :: real
  impact_1pct_pct :: real
  age_hours :: real
  route :: RouteInfo
  bars :: "string \<rightharpoonup> OHLCVBar"
  data_quality_label :: string
  market_timestamp :: int

record TokenMetadata =
  token_mint :: string
  token_symbol :: string
  token_name :: string
  token_decimals :: int
  on_token_list :: bool
  top_holder_pct :: real
  risky_authorities :: bool
  first_liquidity_ts :: int

definition calculate_s7_rug_risk :: "MarketUpdate \<Rightarrow> TokenMetadata option \<Rightarrow> real" where
  "calculate_s7_rug_risk upd metadata =
     (let score =
        (case metadata of
           Some md \<Rightarrow>
             let age_factor = min 1.0 (double_div (age_hours upd) 720.0);
                 holder_factor = (if top_holder_pct md > 0
                                  then max 0.0 (double_sub 1.0 (double_div (top_holder_pct md) 100.0))
                                  else 1.0);
                 auth_factor = (if risky_authorities md then to_double 0.7 else 1.0)
             in double_mul (double_mul (double_mul (to_double 0.7) age_factor) holder_factor)
                  auth_factor
         | None \<Rightarrow> 0.5)
      in min (to_double 0.9) score)"

text \<open>A market update of a given age and a token metadata record, for evaluation.\<close>

definition update_of_age :: "real \<Rightarrow> MarketUpdate" where
  "update_of_age a = \<lparr>
     market_pool_id = ''P'', mint_base = ''A'', mint_quote = ''SOL'', market_symbol = ''A'',
     market_price = 1, liq_usd = 600000, vol24h_usd = 3000000, spread_pct = 0.5,
     impact_1pct_pct = 0.3, age_hours = a,
     route = \<lparr> route_ok = True, route_hops = 2, route_deviation_pct = 0.2 \<rparr>,
     bars = Map.empty, data_quality_label = [], market_timestamp = 0 \<rparr>"

definition metadata_of :: "real \<Rightarrow> bool \<Rightarrow> TokenMetadata" where
  "metadata_of pct risky = \<lparr>
     token_mint = ''A'', token_symbol = ''A'', token_name = ''A'', token_decimals = 9,
     on_token_list = True, top_holder_pct = pct, risky_authorities = risky,
     first_liquidity_ts = 0 \<rparr>"

section \<open>Analytics: alert throttling (analytics/src/throttles.cpp)\<close>



text \<open>
  \<open>system_clock\<close> counts nanoseconds; \<open>duration_cast<minutes>\<close> divides by the ticks of
  a minute and truncates toward zero.
\<close>

definition ticks_per_minute :: int where
  "ticks_per_minute = 60000000000"













section \<open>Strings and numbers\<close>

text \<open>\<open>std::to_string\<close> on an integer, and \<open>std::stoi\<close> / \<open>std::stoll\<close>: leading
  white space is skipped, a sign is optional, the longest run of digits is read; the call
  throws (here: \<open>None\<close>) when there is no digit or the value leaves the target range.\<close>

fun nat_to_string :: "nat \<Rightarrow> string" where
  "nat_to_string n =
     (if n < 10 then [''0123456789'' ! n]
      else nat_to_string (n div 10) @ [''0123456789'' ! (n mod 10)])"

definition to_string :: "int \<Rightarrow> string" where
  "to_string i = (if i < 0 then CHR ''-'' # nat_to_string (nat (- i)) else nat_to_string (nat i))"

definition isspace :: "char \<Rightarrow> bool" where
  "isspace c = (c \<in> set [CHR '' '', CHR 0x09, CHR 0x0A, CHR 0x0B, CHR 0x0C, CHR 0x0D])"

definition isdigit :: "char \<Rightarrow> bool" where
  "isdigit c = (c \<in> set ''0123456789'')"

definition digit_value :: "char \<Rightarrow> int" where
  "digit_value c = int (of_char c) - 48"

definition parse_integer :: "nat \<Rightarrow> string \<Rightarrow> int option" where
  "parse_integer bits s =
     (let s1 = dropWhile isspace s;
          neg = (s1 \<noteq> [] \<and> hd s1 = CHR ''-'');
          s2 = (if s1 \<noteq> [] \<and> (hd s1 = CHR ''-'' \<or> hd s1 = CHR ''+'') then tl s1 else s1);
          ds = takeWhile isdigit s2
      in if ds = [] then None
         else
           let n = foldl (\<lambda>acc c. 10 * acc + digit_value c) 0 ds;
               v = (if neg then - n else n)
           in if v < - (2 ^ (bits - 1)) \<or> v > 2 ^ (bits - 1) - 1 then None else Some v)"

definition stoi :: "string \<Rightarrow> int option" where
  "stoi = parse_integer 32"

definition stoll :: "string \<Rightarrow> int option" where
  "stoll = parse_integer 64"

section \<open>The Redis keyspace\<close>

text \<open>
  The services talk to Redis through a client library that is not part of the repository.
  Its commands are modelled by their documented effect on the keyspace: every key holds a
  string and, optionally, the time (in milliseconds) at which it expires. A command sent
  while the connection is down throws, which is the value \<open>Inl ConnectionError\<close>; the flag
  \<open>up\<close> says whether the connection works.
\<close>

datatype redis_error = ConnectionError | ReplyError

type_synonym keyspace = "string \<rightharpoonup> (string \<times> int option)"

definition live :: "keyspace \<Rightarrow> int \<Rightarrow> string \<Rightarrow> string option" where
  "live ks now k =
     (case ks k of
        None \<Rightarrow> None
      | Some (v, None) \<Rightarrow> Some v
      | Some (v, Some t) \<Rightarrow> (if now < t then Some v else None))"

text \<open>The milliseconds a live key has left; \<open>None\<close> for a missing or a persistent key.\<close>

definition residual_ttl_ms :: "keyspace \<Rightarrow> int \<Rightarrow> string \<Rightarrow> int option" where
  "residual_ttl_ms ks now k =
     (case ks k of
        Some (v, Some t) \<Rightarrow> (if now < t then Some (t - now) else None)
      | _ \<Rightarrow> None)"

definition redis_exists :: "bool \<Rightarrow> keyspace \<Rightarrow> int \<Rightarrow> string \<Rightarrow> redis_error + bool" where
  "redis_exists up ks now k =
     (if \<not> up then Inl ConnectionError else Inr (live ks now k \<noteq> None))"

definition redis_get :: "bool \<Rightarrow> keyspace \<Rightarrow> int \<Rightarrow> string \<Rightarrow> redis_error + string option" where
  "redis_get up ks now k =
     (if \<not> up then Inl ConnectionError else Inr (live ks now k))"

text \<open>\<open>SET key value PX ttl NX\<close>: the time to live is sent only when it is positive.\<close>

definition redis_set_nx :: "bool \<Rightarrow> keyspace \<Rightarrow> int \<Rightarrow> string \<Rightarrow> string \<Rightarrow> int \<Rightarrow> redis_error + (bool \<times> keyspace)" where
  "redis_set_nx up ks now k v ttl_sec =
     (if \<not> up then Inl ConnectionError
      else case live ks now k of
             Some old \<Rightarrow> Inr (False, ks)
           | None \<Rightarrow>
               Inr (True, ks(k \<mapsto> (v, if 0 < ttl_sec then Some (now + 1000 * ttl_sec) else None))))"

definition redis_setex :: "bool \<Rightarrow> keyspace \<Rightarrow> int \<Rightarrow> string \<Rightarrow> int \<Rightarrow> string \<Rightarrow> redis_error + keyspace" where
  "redis_setex up ks now k ttl_sec v =
     (if \<not> up then Inl ConnectionError
      else if ttl_sec \<le> 0 then Inl ReplyError
      else Inr (ks(k \<mapsto> (v, Some (now + 1000 * ttl_sec)))))"

definition redis_del :: "bool \<Rightarrow> keyspace \<Rightarrow> string \<Rightarrow> redis_error + keyspace" where
  "redis_del up ks k = (if \<not> up then Inl ConnectionError else Inr (ks(k := None)))"

definition redis_incr :: "bool \<Rightarrow> keyspace \<Rightarrow> int \<Rightarrow> string \<Rightarrow> redis_error + (int \<times> keyspace)" where
  "redis_incr up ks now k =
     (if \<not> up then Inl ConnectionError
      else case ks k of
             None \<Rightarrow> Inr (1, ks(k \<mapsto> (''1'', None)))
           | Some (v, expiry) \<Rightarrow>
               (if live ks now k = None then Inr (1, ks(k \<mapsto> (''1'', None)))
                else case stoll v of
                       None \<Rightarrow> Inl ReplyError
                     | Some n \<Rightarrow> Inr (n + 1, ks(k \<mapsto> (to_string (n + 1), expiry)))))"

definition redis_expire :: "bool \<Rightarrow> keyspace \<Rightarrow> int \<Rightarrow> string \<Rightarrow> int \<Rightarrow> redis_error + (bool \<times> keyspace)" where
  "redis_expire up ks now k ttl_sec =
     (if \<not> up then Inl ConnectionError
      else case live ks now k of
             None \<Rightarrow> Inr (False, ks)
           | Some v \<Rightarrow>
               (if ttl_sec \<le> 0 then Inr (True, ks(k := None))
                else Inr (True, ks(k \<mapsto> (v, Some (now + 1000 * ttl_sec))))))"

section \<open>Notifier: throttler, deduplicator and alert handler (notifier/src)\<close>

text \<open>
  \<open>struct InboundAlert\<close> of notifier/src/types.hpp, with the member \<open>mint\<close> that the
  deduplicator and the handler read. The configuration members read by the notifier
  (\<open>global_throttle_limit\<close>, \<open>global_throttle_period_sec\<close>, \<open>dedupe_period_sec\<close>,
  \<open>telegram_chat_id\<close>) are not declared in notifier/src/config.hpp and are parameters.
\<close>

record InboundAlert =
  mint :: string
  severity :: string
  symbol :: string
  price :: real
  confidence :: int
  lines :: "string list"
  plan :: string
  sol_path :: string
  est_impact_pct :: real
  alert_timestamp :: int

record OutboundAlert =
  chat_id :: string
  message :: string

record AuditEvent =
  event_timestamp :: int
  event_mint :: string
  event_symbol :: string
  event_severity :: string
  event_confidence :: int
  outcome :: string
  details :: string
  raw_alert :: InboundAlert

record NotifierConfig =
  global_throttle_limit :: int
  global_throttle_period_sec :: int
  dedupe_period_sec :: int
  telegram_chat_id :: string

text \<open>
  What the notifier does not own: the hash of \<open>std::hash<std::string>\<close> and
  \<open>Formatter::format_alert_message\<close> (its source is not in the repository).
\<close>

record NotifierDeps =
  hasher :: "string \<Rightarrow> nat"
  format_alert_message :: "InboundAlert \<Rightarrow> string"

text \<open>
  The surroundings of one call: the clock, whether the connection shared by throttler and
  deduplicator works, whether the Redis server answers the bus's own client, whether the
  audit database can be written. What the calls change: the Redis keys, the outbound
  stream, the rows of the audit table, and whether the bus holds a client object (the
  member \<open>redis_\<close> of \<open>RedisBus\<close>, set by its constructor when the server answered).
\<close>

record NotifierEnv =
  now_ms :: int
  client_up :: bool
  bus_up :: bool
  audit_db_up :: bool

record NotifierWorld =
  redis_keys :: keyspace
  outbound_stream :: "OutboundAlert list"
  audit_rows :: "AuditEvent list"
  bus_client :: bool

definition mute_key :: string where
  "mute_key = ''notifier:mute_status''"

definition global_throttle_key :: string where
  "global_throttle_key = ''notifier:global_throttle:actionable''"

definition is_muted :: "NotifierEnv \<Rightarrow> NotifierWorld \<Rightarrow> bool" where
  "is_muted env w =
     (case redis_exists (client_up env) (redis_keys w) (now_ms env) mute_key of
        Inr present \<Rightarrow> present
      | Inl e \<Rightarrow> False)"

definition is_globally_throttled :: "NotifierConfig \<Rightarrow> NotifierEnv \<Rightarrow> NotifierWorld \<Rightarrow> string \<Rightarrow> bool" where
  "is_globally_throttled cfg env w severity' =
     (if severity' \<noteq> ''actionable'' then False
      else case redis_get (client_up env) (redis_keys w) (now_ms env) global_throttle_key of
             Inl e \<Rightarrow> True
           | Inr None \<Rightarrow> False
           | Inr (Some count) \<Rightarrow>
               (case stoi count of
                  None \<Rightarrow> True
                | Some n \<Rightarrow> (if n \<ge> global_throttle_limit cfg then True else False)))"

definition record_actionable_alert :: "NotifierConfig \<Rightarrow> NotifierEnv \<Rightarrow> NotifierWorld \<Rightarrow> NotifierWorld" where
  "record_actionable_alert cfg env w =
     (case redis_incr (client_up env) (redis_keys w) (now_ms env) global_throttle_key of
        Inl e \<Rightarrow> w
      | Inr (result, ks) \<Rightarrow>
          (if result = 1
           then (case redis_expire (client_up env) ks (now_ms env) global_throttle_key
                        (global_throttle_period_sec cfg) of
                   Inl e \<Rightarrow> w\<lparr> redis_keys := ks \<rparr>
                 | Inr (ok, ks') \<Rightarrow> w\<lparr> redis_keys := ks' \<rparr>)
           else w\<lparr> redis_keys := ks \<rparr>))"

definition generate_reason_hash :: "(string \<Rightarrow> nat) \<Rightarrow> string list \<Rightarrow> string" where
  "generate_reason_hash h reasons' = nat_to_string (h (concat reasons'))"

definition dedupe_key :: "NotifierDeps \<Rightarrow> InboundAlert \<Rightarrow> string" where
  "dedupe_key deps alert =
     ''notifier:dedupe:'' @ mint alert @ '':'' @ generate_reason_hash (hasher deps) (lines alert)"

definition is_duplicate :: "NotifierDeps \<Rightarrow> NotifierConfig \<Rightarrow> NotifierEnv \<Rightarrow> NotifierWorld \<Rightarrow> InboundAlert \<Rightarrow> bool \<times> NotifierWorld" where
  "is_duplicate deps cfg env w alert =
     (case redis_set_nx (client_up env) (redis_keys w) (now_ms env) (dedupe_key deps alert) ''1''
             (dedupe_period_sec cfg) of
        Inr (key_was_set, ks) \<Rightarrow> (\<not> key_was_set, w\<lparr> redis_keys := ks \<rparr>)
      | Inl e \<Rightarrow> (True, w))"

text \<open>
  \<open>RedisBus::ensure_connection\<close>. The ping of an existing client stands in the condition
  of the first \<open>if\<close>, outside the \<open>try\<close> block: when the server cannot be reached the
  exception of the ping leaves the function, which is the answer \<open>None\<close>. Without a
  client, one is made and pinged inside the \<open>try\<close> block, and a failure resets the pointer
  and answers false.
\<close>

definition ensure_connection :: "NotifierEnv \<Rightarrow> NotifierWorld \<Rightarrow> bool option \<times> NotifierWorld" where
  "ensure_connection env w =
     (if bus_client w
      then (if bus_up env then (Some True, w) else (None, w))
      else (if bus_up env then (Some True, w\<lparr> bus_client := True \<rparr>)
            else (Some False, w\<lparr> bus_client := False \<rparr>)))"

text \<open>\<open>RedisBus::publish_outbound_alert\<close>: false without a connection, otherwise the alert
  is appended to the outbound stream, and a failure of that command is caught and answered
  with false. The exception of \<open>ensure_connection\<close> is not caught.\<close>

definition publish_outbound_alert :: "NotifierEnv \<Rightarrow> NotifierWorld \<Rightarrow> OutboundAlert \<Rightarrow> bool option \<times> NotifierWorld" where
  "publish_outbound_alert env w out =
     (case ensure_connection env w of
        (None, w1) \<Rightarrow> (None, w1)
      | (Some False, w1) \<Rightarrow> (Some False, w1)
      | (Some True, w1) \<Rightarrow>
          (if bus_up env then (Some True, w1\<lparr> outbound_stream := outbound_stream w1 @ [out] \<rparr>)
           else (Some False, w1)))"

text \<open>
  How a call ends: it returns, it waits for ever for a mutex, or an exception leaves it.
\<close>

datatype ending = Returned | Blocked | Thrown

text \<open>
  \<open>AuditLogger::check_health\<close> begins by locking \<open>conn_mutex_\<close>, a \<open>std::mutex\<close>, which
  is not recursive: called by the thread that holds the mutex it never gets it, which is
  the value \<open>None\<close> (the language leaves a second lock by the owner open; the mutex of the
  C++ library waits). Otherwise it answers whether the database can be reached.
\<close>

definition check_health :: "bool \<Rightarrow> NotifierEnv \<Rightarrow> bool option" where
  "check_health mutex_held env = (if mutex_held then None else Some (audit_db_up env))"

text \<open>
  \<open>AuditLogger::log_event\<close> locks \<open>conn_mutex_\<close> and, holding it, calls \<open>check_health\<close>;
  the row is inserted after a healthy answer.
\<close>

definition log_event :: "NotifierEnv \<Rightarrow> NotifierWorld \<Rightarrow> AuditEvent \<Rightarrow> ending \<times> NotifierWorld" where
  "log_event env w event =
     (case check_health True env of
        None \<Rightarrow> (Blocked, w)
      | Some False \<Rightarrow> (Returned, w)
      | Some True \<Rightarrow> (Returned, w\<lparr> audit_rows := audit_rows w @ [event] \<rparr>))"

definition new_event :: "NotifierEnv \<Rightarrow> InboundAlert \<Rightarrow> AuditEvent" where
  "new_event env alert = \<lparr>
     event_timestamp = now_ms env, event_mint = mint alert, event_symbol = symbol alert,
     event_severity = severity alert, event_confidence = confidence alert,
     outcome = [], details = [], raw_alert = alert \<rparr>"

text \<open>
  \<open>NotifierService::handle_inbound_alert\<close>. The policy checks fill in the audit event and
  change the world; the third component of \<open>checked\<close> says that the exception of the
  publish has left the handler, otherwise the event is handed to \<open>log_event\<close>. The result
  is the audit event as the handler left it, the world, and how the call ended.
\<close>

record AlertRun =
  run_event :: AuditEvent
  run_world :: NotifierWorld
  run_end :: ending

definition handle_inbound_alert :: "NotifierDeps \<Rightarrow> NotifierConfig \<Rightarrow> NotifierEnv \<Rightarrow> NotifierWorld \<Rightarrow> InboundAlert \<Rightarrow> AlertRun" where
  "handle_inbound_alert deps cfg env w alert =
     (let event = new_event env alert;
          checked =
            (if is_muted env w
             then (event\<lparr> outcome := ''MUTED'', details := ''Global mute is active.'' \<rparr>, w, False)
             else if is_globally_throttled cfg env w (severity alert)
             then (event\<lparr> outcome := ''THROTTLED'',
                     details := ''Global throttle for 'actionable' alerts is active.'' \<rparr>, w, False)
             else
               case is_duplicate deps cfg env w alert of
                 (True, w1) \<Rightarrow>
                   (event\<lparr> outcome := ''DUPLICATE'',
                      details := ''Duplicate alert within ''
                                 @ to_string (dedupe_period_sec cfg) @ ''s.'' \<rparr>, w1, False)
               | (False, w1) \<Rightarrow>
                   (let outbound_alert = \<lparr> chat_id = telegram_chat_id cfg,
                                           message = format_alert_message deps alert \<rparr>
                    in case publish_outbound_alert env w1 outbound_alert of
                         (None, w2) \<Rightarrow> (event, w2, True)
                       | (Some True, w2) \<Rightarrow>
                           (event\<lparr> outcome := ''SENT'',
                              details := ''Alert sent to tg_gateway.'' \<rparr>,
                            if severity alert = ''actionable''
                            then record_actionable_alert cfg env w2 else w2, False)
                       | (Some False, w2) \<Rightarrow>
                           (event\<lparr> outcome := ''PUBLISH_FAILED'',
                              details := ''Failed to publish outbound alert to Redis.'' \<rparr>,
                            w2, False)))
      in case checked of
           (ev, w3, True) \<Rightarrow> \<lparr> run_event = ev, run_world = w3, run_end = Thrown \<rparr>
         | (ev, w3, False) \<Rightarrow>
             (case log_event env w3 ev of
                (e, w4) \<Rightarrow> \<lparr> run_event = ev, run_world = w4, run_end = e \<rparr>))"

text \<open>Values for evaluation: a hash (the sum of the character codes), a formatter, a
  configuration with the six-hour dedup period, an empty world and a heads-up alert.\<close>

definition sample_deps :: NotifierDeps where
  "sample_deps = \<lparr> hasher = (\<lambda>s. sum_list (map of_char s)),
                    format_alert_message = (\<lambda>a. symbol a @ '': '' @ concat (lines a)) \<rparr>"

definition notifier_config :: NotifierConfig where
  "notifier_config = \<lparr> global_throttle_limit = 5, global_throttle_period_sec = 3600,
                        dedupe_period_sec = 21600, telegram_chat_id = ''owner'' \<rparr>"


definition sample_alert :: "string \<Rightarrow> InboundAlert" where
  "sample_alert sev = \<lparr> mint = ''A'', severity = sev, symbol = ''AAA'', price = 1,
     confidence = 65, lines = [''liq ok'', ''vol ok''], plan = [], sol_path = [],
     est_impact_pct = 0.3, alert_timestamp = 0 \<rparr>"

definition env_at :: "int \<Rightarrow> bool \<Rightarrow> NotifierEnv" where
  "env_at t up = \<lparr> now_ms = t, client_up = up, bus_up = up, audit_db_up = True \<rparr>"

text \<open>A world in which the owner has muted the notifier for thirty minutes, and three
  successive deliveries of one heads-up alert, an hour apart, starting from the empty
  world; each delivery meets the world the one before it left. As no call of the handler
  returns, a later delivery is the work of a notifier process started after the earlier
  one, on the same Redis server.\<close>

definition muted_world :: NotifierWorld where
  "muted_world = \<lparr> redis_keys = [mute_key \<mapsto> (''1'', Some 1800000)],
                    outbound_stream = [], audit_rows = [], bus_client = True \<rparr>"




section \<open>Gateway: sessions, guest PINs and pending commands (tg_gateway/src)\<close>

datatype Role = UNKNOWN | GUEST | OWNER

text \<open>The members of the gateway's \<open>Config\<close> that the command handlers read.\<close>

record GatewayConfig =
  owner_telegram_id :: int
  guest_default_minutes :: int

record UserSession =
  tg_user_id :: int
  role :: Role
  expires_at :: int

record PendingCommandInfo =
  pending_chat_id :: int
  pending_timestamp :: int

record ParsedCommand =
  command :: string
  args :: "string list"

text \<open>The JSON object \<open>args\<close> of a request is a list of key and value.\<close>

record CommandRequest =
  request_type :: string
  request_cmd :: string
  request_args :: "(string \<times> string) list"
  from_tg_user_id :: int
  from_role :: string
  corr_id :: string
  request_ts :: int

record CommandReply =
  reply_corr_id :: string
  reply_ok :: bool
  reply_message :: string

record Audit =
  audit_event :: string
  actor_tg_user_id :: int
  actor_role :: string
  audit_detail :: string
  audit_ts :: int

text \<open>
  The surroundings of one call: the system clock (nanosecond ticks), whether the Redis
  connection works, and the values the random generators \<open>util::generate_uuid\<close> and
  \<open>util::generate_pin\<close> return next.
\<close>

record GatewayEnv =
  clock :: int
  redis_up :: bool
  fresh_uuid :: string
  fresh_pin :: string

text \<open>The gateway's maps, the Redis keys it uses, the messages handed to the Telegram
  client and the entries it appended to the request and audit streams.\<close>

record GatewayState =
  guest_sessions :: "int \<rightharpoonup> UserSession"
  pending_commands :: "string \<rightharpoonup> PendingCommandInfo"
  pin_keys :: keyspace
  sent_messages :: "(int \<times> string) list"
  request_stream :: "CommandRequest list"
  audit_stream :: "Audit list"

definition redis_clock :: "GatewayEnv \<Rightarrow> int" where
  "redis_clock env = clock env div 1000000"

definition send_message :: "GatewayState \<Rightarrow> int \<Rightarrow> string \<Rightarrow> GatewayState" where
  "send_message st chat text' = st\<lparr> sent_messages := sent_messages st @ [(chat, text')] \<rparr>"

definition is_expired :: "GatewayEnv \<Rightarrow> UserSession \<Rightarrow> bool" where
  "is_expired env session = (clock env > expires_at session)"

definition get_user_role :: "GatewayConfig \<Rightarrow> GatewayEnv \<Rightarrow> GatewayState \<Rightarrow> int \<Rightarrow> Role" where
  "get_user_role cfg env st uid =
     (if uid = owner_telegram_id cfg then OWNER
      else case guest_sessions st uid of
             Some session \<Rightarrow> (if \<not> is_expired env session then GUEST else UNKNOWN)
           | None \<Rightarrow> UNKNOWN)"

definition is_command_allowed :: "string \<Rightarrow> Role \<Rightarrow> bool" where
  "is_command_allowed cmd r =
     (if r = OWNER then True
      else if r = GUEST
      then cmd = ''start'' \<or> cmd = ''help'' \<or> cmd = ''balance'' \<or>
           cmd = ''holdings'' \<or> cmd = ''signals'' \<or> cmd = ''health''
      else False)"

definition set_guest_session :: "GatewayEnv \<Rightarrow> GatewayState \<Rightarrow> int \<Rightarrow> int \<Rightarrow> GatewayState" where
  "set_guest_session env st uid minutes =
     st\<lparr> guest_sessions := (guest_sessions st)(uid \<mapsto>
           \<lparr> tg_user_id = uid, role = GUEST,
             expires_at = clock env + minutes * ticks_per_minute \<rparr>) \<rparr>"

definition cleanup_expired_sessions :: "GatewayEnv \<Rightarrow> GatewayState \<Rightarrow> GatewayState" where
  "cleanup_expired_sessions env st =
     st\<lparr> guest_sessions := (\<lambda>uid. case guest_sessions st uid of
            Some session \<Rightarrow> (if is_expired env session then None else Some session)
          | None \<Rightarrow> None) \<rparr>"

definition guest_pin_key :: "string \<Rightarrow> string" where
  "guest_pin_key pin = ''guest_pin:'' @ pin"

definition store_guest_pin :: "GatewayEnv \<Rightarrow> GatewayState \<Rightarrow> string \<Rightarrow> int \<Rightarrow> int \<Rightarrow> bool \<times> GatewayState" where
  "store_guest_pin env st pin owner_id ttl_seconds =
     (case redis_setex (redis_up env) (pin_keys st) (redis_clock env) (guest_pin_key pin)
             ttl_seconds (to_string owner_id) of
        Inr ks \<Rightarrow> (True, st\<lparr> pin_keys := ks \<rparr>)
      | Inl e \<Rightarrow> (False, st))"

definition get_guest_pin_user :: "GatewayEnv \<Rightarrow> GatewayState \<Rightarrow> string \<Rightarrow> int option" where
  "get_guest_pin_user env st pin =
     (case redis_get (redis_up env) (pin_keys st) (redis_clock env) (guest_pin_key pin) of
        Inr (Some result) \<Rightarrow> stoll result
      | Inr None \<Rightarrow> None
      | Inl e \<Rightarrow> None)"

definition delete_guest_pin :: "GatewayEnv \<Rightarrow> GatewayState \<Rightarrow> string \<Rightarrow> GatewayState" where
  "delete_guest_pin env st pin =
     (case redis_del (redis_up env) (pin_keys st) (guest_pin_key pin) of
        Inr ks \<Rightarrow> st\<lparr> pin_keys := ks \<rparr>
      | Inl e \<Rightarrow> st)"

definition publish_audit_event :: "GatewayEnv \<Rightarrow> GatewayState \<Rightarrow> Audit \<Rightarrow> GatewayState" where
  "publish_audit_event env st ev =
     (if \<not> redis_up env then st else st\<lparr> audit_stream := audit_stream st @ [ev] \<rparr>)"

definition publish_command_request :: "GatewayEnv \<Rightarrow> GatewayState \<Rightarrow> CommandRequest \<Rightarrow> GatewayState" where
  "publish_command_request env st request =
     (if \<not> redis_up env then st else st\<lparr> request_stream := request_stream st @ [request] \<rparr>)"

definition role_string :: "Role \<Rightarrow> string" where
  "role_string r = (if r = OWNER then ''owner'' else ''guest'')"

definition audit_auth_denied :: "GatewayEnv \<Rightarrow> GatewayState \<Rightarrow> int \<Rightarrow> GatewayState" where
  "audit_auth_denied env st uid =
     publish_audit_event env st
       \<lparr> audit_event = ''auth_denied'', actor_tg_user_id = uid, actor_role = ''unknown'',
         audit_detail = ''Access denied for user '' @ to_string uid, audit_ts = clock env \<rparr>"

definition audit_command_used :: "GatewayEnv \<Rightarrow> GatewayState \<Rightarrow> string \<Rightarrow> int \<Rightarrow> Role \<Rightarrow> GatewayState" where
  "audit_command_used env st cmd uid r =
     publish_audit_event env st
       \<lparr> audit_event = ''cmd_used'', actor_tg_user_id = uid, actor_role = role_string r,
         audit_detail = ''User used command: /'' @ cmd, audit_ts = clock env \<rparr>"

definition audit_guest_login :: "GatewayEnv \<Rightarrow> GatewayState \<Rightarrow> int \<Rightarrow> GatewayState" where
  "audit_guest_login env st uid =
     publish_audit_event env st
       \<lparr> audit_event = ''guest_login'', actor_tg_user_id = uid, actor_role = ''guest'',
         audit_detail = ''Guest access granted via PIN'', audit_ts = clock env \<rparr>"

definition handle_guest_login :: "GatewayConfig \<Rightarrow> GatewayEnv \<Rightarrow> GatewayState \<Rightarrow> string \<Rightarrow> int \<Rightarrow> int \<Rightarrow> GatewayState" where
  "handle_guest_login cfg env st pin uid chat =
     (case get_guest_pin_user env st pin of
        None \<Rightarrow> send_message st chat ''Invalid or expired PIN''
      | Some owner_id \<Rightarrow>
          (let st1 = set_guest_session env st uid (guest_default_minutes cfg);
               st2 = delete_guest_pin env st1 pin;
               st3 = send_message st2 chat ''Guest access granted! Use /help for available commands.''
           in audit_guest_login env st3 uid))"

definition get_int_arg :: "ParsedCommand \<Rightarrow> nat \<Rightarrow> int option" where
  "get_int_arg cmd index = (if index < length (args cmd) then stoi (args cmd ! index) else None)"

definition help_text :: "Role \<Rightarrow> string" where
  "help_text r =
     ''Available commands:'' @ [CHR 0x0A] @
     ''/balance - Show wallet balances'' @ [CHR 0x0A] @
     ''/holdings - Show current positions'' @ [CHR 0x0A] @
     ''/signals [window] - Show recent signals'' @ [CHR 0x0A] @
     ''/health - System health check'' @ [CHR 0x0A] @
     (if r = OWNER
      then ''/silence [minutes] - Silence alerts'' @ [CHR 0x0A] @
           ''/resume - Resume alerts'' @ [CHR 0x0A] @
           ''/add_wallet <address> - Add wallet to monitor'' @ [CHR 0x0A] @
           ''/remove_wallet <address> - Remove wallet'' @ [CHR 0x0A] @
           ''/guest [minutes] - Generate guest PIN'' @ [CHR 0x0A]
      else [])"

text \<open>\<open>handle_local_command\<close>; the seconds of a guest PIN are the \<open>int\<close> product
  \<open>minutes * 60\<close>.\<close>

definition handle_local_command :: "GatewayConfig \<Rightarrow> GatewayEnv \<Rightarrow> GatewayState \<Rightarrow> ParsedCommand \<Rightarrow> int \<Rightarrow> int \<Rightarrow> Role \<Rightarrow> bool \<times> GatewayState" where
  "handle_local_command cfg env st cmd uid chat r =
     (if command cmd = ''start''
      then (True, send_message st chat ''Welcome to SoulScout! Use /help for available commands.'')
      else if command cmd = ''help''
      then (True, send_message st chat (help_text r))
      else if command cmd = ''guest'' \<and> r = OWNER
      then (let minutes = (case get_int_arg cmd 0 of Some m \<Rightarrow> m
                           | None \<Rightarrow> guest_default_minutes cfg);
                pin = fresh_pin env
            in case store_guest_pin env st pin uid (int32 (minutes * 60)) of
                 (True, st1) \<Rightarrow>
                   (True, send_message st1 chat
                      (''Guest PIN: <code>'' @ pin @ ''</code>'' @ [CHR 0x0A] @
                       ''Valid for '' @ to_string minutes @ '' minutes''))
               | (False, st1) \<Rightarrow> (True, send_message st1 chat ''Failed to generate guest PIN''))
      else (False, st))"

definition is_valid_address :: "string \<Rightarrow> bool" where
  "is_valid_address address =
     (if length address < 32 \<or> length address > 44 then False
      else list_all
             (\<lambda>c. c \<in> set ''123456789ABCDEFGHJKLMNPQRSTUVWXYZabcdefghijkmnopqrstuvwxyz'')
             address)"

text \<open>The arguments \<open>forward_command\<close> builds; \<open>None\<close> is its early return on an address
  of the wrong format.\<close>

definition build_args :: "ParsedCommand \<Rightarrow> (string \<times> string) list option" where
  "build_args cmd =
     (if command cmd = ''signals'' \<and> args cmd \<noteq> []
      then Some [(''window'', args cmd ! 0)]
      else if (command cmd = ''add_wallet'' \<or> command cmd = ''remove_wallet'') \<and> args cmd \<noteq> []
      then (if \<not> is_valid_address (args cmd ! 0) then None
            else Some [(''address'', args cmd ! 0)])
      else if command cmd = ''silence'' \<and> args cmd \<noteq> []
      then (case get_int_arg cmd 0 of
              Some minutes \<Rightarrow> Some [(''minutes'', to_string minutes)]
            | None \<Rightarrow> Some [])
      else Some [])"

definition forward_command :: "GatewayEnv \<Rightarrow> GatewayState \<Rightarrow> ParsedCommand \<Rightarrow> int \<Rightarrow> int \<Rightarrow> Role \<Rightarrow> GatewayState" where
  "forward_command env st cmd uid chat r =
     (case build_args cmd of
        None \<Rightarrow> st
      | Some request_args' \<Rightarrow>
          (let request = \<lparr> request_type = ''command'', request_cmd = command cmd,
                            request_args = request_args', from_tg_user_id = uid,
                            from_role = role_string r, corr_id = fresh_uuid env,
                            request_ts = clock env \<rparr>;
               st1 = st\<lparr> pending_commands := (pending_commands st)(corr_id request \<mapsto>
                          \<lparr> pending_chat_id = chat, pending_timestamp = clock env \<rparr>) \<rparr>
           in publish_command_request env st1 request))"

definition handle_command :: "GatewayConfig \<Rightarrow> GatewayEnv \<Rightarrow> GatewayState \<Rightarrow> ParsedCommand \<Rightarrow> int \<Rightarrow> int \<Rightarrow> GatewayState" where
  "handle_command cfg env st cmd uid chat =
     (if command cmd = ''start'' \<and> length (args cmd) = 1
      then handle_guest_login cfg env st (args cmd ! 0) uid chat
      else
        let user_role = get_user_role cfg env st uid in
        if user_role = UNKNOWN
        then audit_auth_denied env
               (send_message st chat ''Access denied. Contact the owner for access.'') uid
        else if \<not> is_command_allowed (command cmd) user_role
        then audit_auth_denied env
               (send_message st chat ''You don't have permission to use this command.'') uid
        else
          case handle_local_command cfg env st cmd uid chat user_role of
            (True, st1) \<Rightarrow> st1
          | (False, st1) \<Rightarrow>
              audit_command_used env (forward_command env st1 cmd uid chat user_role)
                (command cmd) uid user_role)"

definition handle_command_reply :: "GatewayState \<Rightarrow> CommandReply \<Rightarrow> GatewayState" where
  "handle_command_reply st reply =
     (case pending_commands st (reply_corr_id reply) of
        None \<Rightarrow> st
      | Some info \<Rightarrow>
          (let chat_id_to_reply = pending_chat_id info;
               st1 = st\<lparr> pending_commands := (pending_commands st)(reply_corr_id reply := None) \<rparr>
           in if chat_id_to_reply \<noteq> 0
              then send_message st1 chat_id_to_reply (reply_message reply)
              else st1))"

text \<open>The sweep of the pending commands in \<open>cleanup_loop\<close>, and one whole round of the
  loop (the rate limiter's own sweep touches none of the state kept here).\<close>

definition cleanup_pending :: "GatewayEnv \<Rightarrow> GatewayState \<Rightarrow> GatewayState" where
  "cleanup_pending env st =
     st\<lparr> pending_commands := (\<lambda>key. case pending_commands st key of
            Some info' \<Rightarrow> (if clock env - pending_timestamp info' > 5 * ticks_per_minute
                           then None else Some info')
          | None \<Rightarrow> None) \<rparr>"

definition cleanup_round :: "GatewayEnv \<Rightarrow> GatewayState \<Rightarrow> GatewayState" where
  "cleanup_round env st = cleanup_pending env (cleanup_expired_sessions env st)"





text \<open>Values for evaluation: the owner is user 1, the default guest session lasts thirty
  minutes; times are given in seconds.\<close>

definition gateway_config :: GatewayConfig where
  "gateway_config = \<lparr> owner_telegram_id = 1, guest_default_minutes = 30 \<rparr>"

definition empty_gateway :: GatewayState where
  "empty_gateway = \<lparr> guest_sessions = Map.empty, pending_commands = Map.empty,
     pin_keys = Map.empty, sent_messages = [], request_stream = [], audit_stream = [] \<rparr>"

definition at_second :: "int \<Rightarrow> string \<Rightarrow> GatewayEnv" where
  "at_second t uuid = \<lparr> clock = t * 1000000000, redis_up = True, fresh_uuid = uuid,
                        fresh_pin = ''123456'' \<rparr>"

definition command_of :: "string \<Rightarrow> string list \<Rightarrow> ParsedCommand" where
  "command_of c as = \<lparr> command = c, args = as \<rparr>"

text \<open>The owner asks for a five-minute guest PIN; user 42 logs in with it 100 seconds
  later; user 43 tries the same PIN after another 100 seconds.\<close>

definition after_guest :: GatewayState where
  "after_guest = handle_command gateway_config (at_second 0 ''u0'') empty_gateway
                   (command_of ''guest'' [''5'']) 1 1"

definition after_login :: GatewayState where
  "after_login = handle_command gateway_config (at_second 100 ''u1'') after_guest
                   (command_of ''start'' [''123456'']) 42 42"

definition after_second_login :: GatewayState where
  "after_second_login = handle_command gateway_config (at_second 200 ''u2'') after_login
                          (command_of ''start'' [''123456'']) 43 43"





section \<open>Ingestor: the DEX client's filter and the service tick (ingestor/src)\<close>

text \<open>\<open>PoolInfo\<close> with the members that dex_client.cpp and service.cpp read and write,
  and the two thresholds of the ingestor's \<open>Config\<close>.\<close>

record PoolInfo =
  pool_id :: string
  dex_name :: string
  pool_type :: string
  token_a_address :: string
  token_b_address :: string
  reserve_a :: real
  reserve_b :: real
  tvl_usd :: real
  volume_24h_usd :: real
  price_impact_1pct :: real
  fee_rate :: real
  apr :: real

record IngestorConfig =
  min_tvl_threshold :: real
  min_volume_threshold :: real

definition calculate_additional_metrics :: "PoolInfo \<Rightarrow> PoolInfo" where
  "calculate_additional_metrics pool =
     (let pool1 = pool\<lparr> fee_rate := to_double 0.003 \<rparr>;
          pool2 =
            (if reserve_a pool1 > 0 \<and> reserve_b pool1 > 0
             then (if pool_type pool1 = ''constant-product''
                   then (let k = double_mul (reserve_a pool1) (reserve_b pool1);
                             delta_a = double_mul (reserve_a pool1) (to_double 0.01);
                             new_reserve_a = double_add (reserve_a pool1) delta_a;
                             new_reserve_b = double_div k new_reserve_a;
                             initial_price = double_div (reserve_b pool1) (reserve_a pool1);
                             new_price = double_div new_reserve_b new_reserve_a
                         in pool1\<lparr> price_impact_1pct :=
                                    double_mul
                                      \<bar>double_div (double_sub new_price initial_price)
                                         initial_price\<bar> 100.0 \<rparr>)
                   else if pool_type pool1 = ''stable''
                   then pool1\<lparr> price_impact_1pct := to_double 0.1 \<rparr>
                   else pool1)
             else pool1)
      in if volume_24h_usd pool2 > 0 \<and> tvl_usd pool2 > 0
         then pool2\<lparr> apr := double_div (double_mul (volume_24h_usd pool2) 365.0)
                                  (tvl_usd pool2) \<rparr>
         else pool2\<lparr> apr := 0.0 \<rparr>)"

text \<open>\<open>DexClient::fetch_pools\<close>, given what the two exchanges returned: pools below either
  threshold are erased, then the metrics are computed for the rest.\<close>

definition fetch_pools :: "IngestorConfig \<Rightarrow> PoolInfo list \<Rightarrow> PoolInfo list \<Rightarrow> PoolInfo list" where
  "fetch_pools cfg raydium_pools orca_pools =
     map calculate_additional_metrics
       (filter (\<lambda>pool. \<not> (tvl_usd pool < min_tvl_threshold cfg
                           \<or> volume_24h_usd pool < min_volume_threshold cfg))
          (raydium_pools @ orca_pools))"

text \<open>The market update \<open>create_market_update\<close> fills from a pool, with the identifier
  drawn for it and the clock reading.\<close>

record PoolUpdate =
  update_id :: string
  update_pool_id :: string
  update_dex_name :: string
  update_tvl_usd :: real
  update_volume_24h_usd :: real
  update_price_impact_1pct :: real
  update_timestamp :: int

definition create_market_update :: "string \<Rightarrow> int \<Rightarrow> PoolInfo \<Rightarrow> PoolUpdate" where
  "create_market_update uuid now pool_info = \<lparr>
     update_id = uuid,
     update_pool_id = pool_id pool_info,
     update_dex_name = dex_name pool_info,
     update_tvl_usd = tvl_usd pool_info,
     update_volume_24h_usd = volume_24h_usd pool_info,
     update_price_impact_1pct = price_impact_1pct pool_info,
     update_timestamp = now \<rparr>"

text \<open>
  \<open>Service::tick\<close>, given what the two exchanges answered. It works on the pools that
  \<open>DexClient::fetch_pools\<close> returns, keeps those that reach one of the two thresholds,
  and hands them to \<open>PoolCache::update_pools\<close> and, as market updates, to
  \<open>RedisPublisher::publish_market_updates\<close> (the publisher is called only for a non-empty
  list). The i-th update gets the i-th identifier drawn.
\<close>

record TickOutput =
  cached_pools :: "PoolInfo list"
  published_updates :: "PoolUpdate list"

fun create_updates :: "(nat \<Rightarrow> string) \<Rightarrow> int \<Rightarrow> nat \<Rightarrow> PoolInfo list \<Rightarrow> PoolUpdate list" where
  "create_updates uuid_of now i [] = []"
| "create_updates uuid_of now i (pool # rest) =
     create_market_update (uuid_of i) now pool # create_updates uuid_of now (Suc i) rest"

definition tick :: "IngestorConfig \<Rightarrow> (nat \<Rightarrow> string) \<Rightarrow> int \<Rightarrow> PoolInfo list \<Rightarrow> PoolInfo list \<Rightarrow> TickOutput" where
  "tick cfg uuid_of now raydium_pools orca_pools =
     (let pools = fetch_pools cfg raydium_pools orca_pools;
          filtered_pools = filter (\<lambda>pool. tvl_usd pool \<ge> min_tvl_threshold cfg
                                         \<or> volume_24h_usd pool \<ge> min_volume_threshold cfg) pools;
          updates = create_updates uuid_of now 0 filtered_pools
      in \<lparr> cached_pools = filtered_pools,
           published_updates = (if updates \<noteq> [] then updates else []) \<rparr>)"

text \<open>Values for evaluation: the default thresholds and four pools, of which \<open>deep\<close>
  reaches the TVL threshold only, \<open>busy\<close> the volume threshold only, \<open>thin\<close> neither and
  \<open>both\<close> both.\<close>

definition ingestor_config :: IngestorConfig where
  "ingestor_config = \<lparr> min_tvl_threshold = 25000, min_volume_threshold = 1000 \<rparr>"

definition pool_of :: "string \<Rightarrow> real \<Rightarrow> real \<Rightarrow> PoolInfo" where
  "pool_of name tvl vol = \<lparr> pool_id = name, dex_name = ''Raydium'',
     pool_type = ''constant-product'', token_a_address = ''A'', token_b_address = ''B'',
     reserve_a = 0, reserve_b = 0, tvl_usd = tvl, volume_24h_usd = vol,
     price_impact_1pct = 0, fee_rate = 0, apr = 0 \<rparr>"

definition sample_uuid :: "nat \<Rightarrow> string" where
  "sample_uuid i = ''u'' @ nat_to_string i"

definition sample_pools :: "PoolInfo list" where
  "sample_pools = [pool_of ''deep'' 30000 500, pool_of ''busy'' 100 2000,
     pool_of ''thin'' 100 500, pool_of ''both'' 30000 2000]"

section \<open>Properties of the rounding\<close>

lemma binade_eq:
  assumes "2 powi e \<le> \<bar>x\<bar>" and "\<bar>x\<bar> < 2 powi (e + 1)" and "- 1022 \<le> e"
  shows "binade x = e"
proof -
  have pos: "0 < \<bar>x\<bar>"
    using assms(1) by (smt (verit) zero_less_power_int)
  have p: "(2::real) powr real_of_int k = 2 powi k" for k
    by (rule powr_real_of_int') simp_all
  have "(2::real) powr real_of_int e \<le> \<bar>x\<bar> \<and> \<bar>x\<bar> < 2 powr real_of_int (e + 1)"
    using assms(1,2) by (simp only: p)
  then have "\<lfloor>log 2 \<bar>x\<bar>\<rfloor> = e"
    using pos floor_log_eq_powr_iff [of "\<bar>x\<bar>" 2 e] by simp
  then show ?thesis using assms(3) by (simp add: binade_def)
qed

lemma to_double_eval:
  assumes "2 powi e \<le> \<bar>x\<bar>" and "\<bar>x\<bar> < 2 powi (e + 1)" and "- 1022 \<le> e"
  shows "to_double x = of_int (round_half_even (x / 2 powi (e - 52))) * 2 powi (e - 52)"
proof -
  have "x \<noteq> 0" using assms(1) by (smt (verit) zero_less_power_int abs_zero)
  then show ?thesis by (simp add: to_double_def binade_eq [OF assms])
qed

lemma to_double_zero [simp]: "to_double 0 = 0"
  by (simp add: to_double_def)

lemma round_half_even_le:
  assumes "y \<le> of_int k"
  shows "round_half_even y \<le> k"
proof -
  have "\<lfloor>y\<rfloor> \<le> k" using assms by (simp add: floor_le_iff)
  moreover have "\<lfloor>y\<rfloor> + 1 \<le> k" if "y - of_int \<lfloor>y\<rfloor> \<ge> 1 / 2"
  proof -
    have "of_int \<lfloor>y\<rfloor> < (of_int k :: real)" using that assms by linarith
    then show ?thesis by simp
  qed
  ultimately show ?thesis
    by (auto simp: round_half_even_def Let_def)
qed

lemma round_half_even_ge:
  assumes "of_int k \<le> y"
  shows "k \<le> round_half_even y"
proof -
  have "k \<le> \<lfloor>y\<rfloor>" using assms by (simp add: le_floor_iff)
  then show ?thesis
    by (auto simp: round_half_even_def Let_def)
qed

lemma to_double_nonneg:
  assumes "0 \<le> x"
  shows "0 \<le> to_double x"
proof (cases "x = 0")
  case True
  then show ?thesis by simp
next
  case False
  have "0 \<le> x / 2 powi (binade x - 52)" using assms by simp
  then have "0 \<le> round_half_even (x / 2 powi (binade x - 52))"
    using round_half_even_ge [of 0] by simp
  then show ?thesis using False by (simp add: to_double_def)
qed

lemma to_double_nonpos:
  assumes "x \<le> 0"
  shows "to_double x \<le> 0"
proof (cases "x = 0")
  case True
  then show ?thesis by simp
next
  case False
  have "x / 2 powi (binade x - 52) \<le> 0" using assms by (simp add: divide_nonpos_pos)
  then have "round_half_even (x / 2 powi (binade x - 52)) \<le> 0"
    using round_half_even_le [of _ 0] by simp
  then have "of_int (round_half_even (x / 2 powi (binade x - 52))) * (2::real) powi (binade x - 52) \<le> 0"
    by (simp add: mult_nonpos_nonneg)
  then show ?thesis using False by (simp add: to_double_def)
qed

lemma to_double_le:
  assumes le: "x \<le> of_int m * 2 powi (e - 52)" and m: "0 \<le> m"
    and top: "of_int m * 2 powi (e - 52) < (2::real) powi (e + 1)" and e: "- 1022 \<le> e"
  shows "to_double x \<le> of_int m * 2 powi (e - 52)"
proof (cases "x \<le> 0")
  case True
  then have "to_double x \<le> 0" by (rule to_double_nonpos)
  moreover have "0 \<le> of_int m * (2::real) powi (e - 52)" using m by simp
  ultimately show ?thesis by linarith
next
  case False
  then have xpos: "0 < x" by simp
  define b where "b = binade x"
  define q :: real where "q = 2 powi (b - 52)"
  have p: "(2::real) powr real_of_int k = 2 powi k" for k
    by (rule powr_real_of_int') simp_all
  have "x < 2 powi (e + 1)" using le top by linarith
  then have "x < 2 powr real_of_int (e + 1)" by (simp only: p)
  then have "log 2 x < real_of_int (e + 1)"
    using xpos by (simp add: log_less_iff)
  then have "\<lfloor>log 2 \<bar>x\<bar>\<rfloor> \<le> e"
    using xpos by (simp add: floor_le_iff)
  then have be: "b \<le> e" using e by (simp add: b_def binade_def)
  have qpos: "0 < q" by (simp add: q_def)
  define k :: int where "k = m * 2 ^ nat (e - b)"
  have "(2::real) powi (e - b) * 2 powi (b - 52) = 2 powi ((e - b) + (b - 52))"
    by (subst power_int_add) simp_all
  then have "(2::real) powi (e - b) * q = 2 powi (e - 52)" by (simp add: q_def)
  moreover have "(2::real) powi (e - b) = 2 ^ nat (e - b)"
    using be by (simp add: power_int_def)
  ultimately have "(2::real) ^ nat (e - b) * q = 2 powi (e - 52)" by simp
  moreover have "of_int k * q = of_int m * ((2::real) ^ nat (e - b) * q)" by (simp add: k_def)
  ultimately have kq: "of_int k * q = of_int m * 2 powi (e - 52)" by simp
  then have "x / q \<le> of_int k"
    using le qpos by (simp add: field_simps)
  then have "round_half_even (x / q) \<le> k" by (rule round_half_even_le)
  then have "of_int (round_half_even (x / q)) * q \<le> of_int k * q"
    using qpos by simp
  then have "of_int (round_half_even (x / q)) * q \<le> of_int m * 2 powi (e - 52)"
    by (simp only: kq)
  moreover have "to_double x = of_int (round_half_even (x / q)) * q"
    using False by (simp add: to_double_def q_def b_def)
  ultimately show ?thesis by simp
qed

lemma to_double_le_100:
  assumes "x \<le> 100"
  shows "to_double x \<le> 100"
proof -
  have v: "of_int 7036874417766400 * (2::real) powi (6 - 52) = 100"
    by (simp add: power_int_def power_divide)
  have "to_double x \<le> of_int 7036874417766400 * 2 powi (6 - 52)"
    by (rule to_double_le) (simp_all only: v, simp_all add: assms)
  then show ?thesis by (simp only: v)
qed

text \<open>The rounding of the literals and of the intermediate results met in the evaluations
  below; each value is checked against the definition of \<open>to_double\<close> with its binade
  given.\<close>

lemma to_double_3_20:
  "to_double (3 / 20) =
     5404319552844595 / 36028797018963968"
  using to_double_eval [of "- 3" "3 / 20"]
  by (simp add: round_half_even_def)

lemma to_double_1_10:
  "to_double (1 / 10) =
     3602879701896397 / 36028797018963968"
  using to_double_eval [of "- 4" "1 / 10"]
  by (simp add: round_half_even_def)

lemma to_double_1_20:
  "to_double (1 / 20) =
     3602879701896397 / 72057594037927936"
  using to_double_eval [of "- 5" "1 / 20"]
  by (simp add: round_half_even_def)

lemma to_double_1_5:
  "to_double (1 / 5) =
     3602879701896397 / 18014398509481984"
  using to_double_eval [of "- 3" "1 / 5"]
  by (simp add: round_half_even_def)

lemma to_double_7_10:
  "to_double (7 / 10) =
     3152519739159347 / 4503599627370496"
  using to_double_eval [of "- 1" "7 / 10"]
  by (simp add: round_half_even_def)

lemma to_double_3_10:
  "to_double (3 / 10) =
     5404319552844595 / 18014398509481984"
  using to_double_eval [of "- 2" "3 / 10"]
  by (simp add: round_half_even_def)

lemma to_double_5404319552844595_36028797018963968:
  "to_double (5404319552844595 / 36028797018963968) =
     5404319552844595 / 36028797018963968"
  using to_double_eval [of "- 3" "5404319552844595 / 36028797018963968"]
  by (simp add: round_half_even_def)

lemma to_double_3602879701896397_36028797018963968:
  "to_double (3602879701896397 / 36028797018963968) =
     3602879701896397 / 36028797018963968"
  using to_double_eval [of "- 4" "3602879701896397 / 36028797018963968"]
  by (simp add: round_half_even_def)

lemma to_double_3602879701896397_72057594037927936:
  "to_double (3602879701896397 / 72057594037927936) =
     3602879701896397 / 72057594037927936"
  using to_double_eval [of "- 5" "3602879701896397 / 72057594037927936"]
  by (simp add: round_half_even_def)

lemma to_double_3602879701896397_18014398509481984:
  "to_double (3602879701896397 / 18014398509481984) =
     3602879701896397 / 18014398509481984"
  using to_double_eval [of "- 3" "3602879701896397 / 18014398509481984"]
  by (simp add: round_half_even_def)

lemma to_double_5404319552844595_18014398509481984:
  "to_double (5404319552844595 / 18014398509481984) =
     5404319552844595 / 18014398509481984"
  using to_double_eval [of "- 2" "5404319552844595 / 18014398509481984"]
  by (simp add: round_half_even_def)

lemma to_double_14411518807585587_36028797018963968:
  "to_double (14411518807585587 / 36028797018963968) =
     3602879701896397 / 9007199254740992"
  using to_double_eval [of "- 2" "14411518807585587 / 36028797018963968"]
  by (simp add: round_half_even_def)

lemma to_double_18014398509481985_36028797018963968:
  "to_double (18014398509481985 / 36028797018963968) =
     1 / 2"
  using to_double_eval [of "- 1" "18014398509481985 / 36028797018963968"]
  by (simp add: round_half_even_def)

lemma to_double_39631676720860365_72057594037927936:
  "to_double (39631676720860365 / 72057594037927936) =
     2476979795053773 / 4503599627370496"
  using to_double_eval [of "- 1" "39631676720860365 / 72057594037927936"]
  by (simp add: round_half_even_def)

lemma to_double_43234556422756765_72057594037927936:
  "to_double (43234556422756765 / 72057594037927936) =
     1351079888211149 / 2251799813685248"
  using to_double_eval [of "- 1" "43234556422756765 / 72057594037927936"]
  by (simp add: round_half_even_def)

lemma to_double_14411518807585589_18014398509481984:
  "to_double (14411518807585589 / 18014398509481984) =
     3602879701896397 / 4503599627370496"
  using to_double_eval [of "- 1" "14411518807585589 / 18014398509481984"]
  by (simp add: round_half_even_def)

lemma to_double_32425917317067573_36028797018963968:
  "to_double (32425917317067573 / 36028797018963968) =
     8106479329266893 / 9007199254740992"
  using to_double_eval [of "- 1" "32425917317067573 / 36028797018963968"]
  by (simp add: round_half_even_def)

lemma to_double_68454714336031541_72057594037927936:
  "to_double (68454714336031541 / 72057594037927936) =
     8556839292003943 / 9007199254740992"
  using to_double_eval [of "- 1" "68454714336031541 / 72057594037927936"]
  by (simp add: round_half_even_def)

lemma to_double_72057594037927941_72057594037927936:
  "to_double (72057594037927941 / 72057594037927936) =
     1"
  using to_double_eval [of "0" "72057594037927941 / 72057594037927936"]
  by (simp add: round_half_even_def)

lemma to_double_100_1:
  "to_double (100) =
     100"
  using to_double_eval [of "6" "100"]
  by (simp add: round_half_even_def)

lemma to_double_825_32:
  "to_double (825 / 32) =
     825 / 32"
  using to_double_eval [of "4" "825 / 32"]
  by (simp add: round_half_even_def)

lemma to_double_135107988821114875_4503599627370496:
  "to_double (135107988821114875 / 4503599627370496) =
     30"
  using to_double_eval [of "4" "135107988821114875 / 4503599627370496"]
  by (simp add: round_half_even_def)

lemma to_double_29_100:
  "to_double (29 / 100) =
     5224175567749775 / 18014398509481984"
  using to_double_eval [of "- 2" "29 / 100"]
  by (simp add: round_half_even_def)

lemma to_double_130604389193744375_4503599627370496:
  "to_double (130604389193744375 / 4503599627370496) =
     8162774324609023 / 281474976710656"
  using to_double_eval [of "4" "130604389193744375 / 4503599627370496"]
  by (simp add: round_half_even_def)

lemma to_double_1_1:
  "to_double (1) =
     1"
  using to_double_eval [of "0" "1"]
  by (simp add: round_half_even_def)

lemma to_double_33_128:
  "to_double (33 / 128) =
     33 / 128"
  using to_double_eval [of "- 2" "33 / 128"]
  by (simp add: round_half_even_def)

lemma to_double_5224175567749775_18014398509481984:
  "to_double (5224175567749775 / 18014398509481984) =
     5224175567749775 / 18014398509481984"
  using to_double_eval [of "- 2" "5224175567749775 / 18014398509481984"]
  by (simp add: round_half_even_def)

lemma to_double_57_100:
  "to_double (57 / 100) =
     5134103575202365 / 9007199254740992"
  using to_double_eval [of "- 1" "57 / 100"]
  by (simp add: round_half_even_def)

lemma to_double_27746336337795481735238521467175_324518553658426726783156020576256:
  "to_double (27746336337795481735238521467175 / 324518553658426726783156020576256) =
     3080462145121419 / 36028797018963968"
  using to_double_eval [of "- 4" "27746336337795481735238521467175 / 324518553658426726783156020576256"]
  by (simp add: round_half_even_def)

lemma to_double_18497557558530322868193539378905_324518553658426726783156020576256:
  "to_double (18497557558530322868193539378905 / 324518553658426726783156020576256) =
     1026820715040473 / 18014398509481984"
  using to_double_eval [of "- 5" "18497557558530322868193539378905 / 324518553658426726783156020576256"]
  by (simp add: round_half_even_def)

lemma to_double_18497557558530322868193539378905_649037107316853453566312041152512:
  "to_double (18497557558530322868193539378905 / 649037107316853453566312041152512) =
     1026820715040473 / 36028797018963968"
  using to_double_eval [of "- 6" "18497557558530322868193539378905 / 649037107316853453566312041152512"]
  by (simp add: round_half_even_def)

lemma to_double_18497557558530322868193539378905_162259276829213363391578010288128:
  "to_double (18497557558530322868193539378905 / 162259276829213363391578010288128) =
     1026820715040473 / 9007199254740992"
  using to_double_eval [of "- 4" "18497557558530322868193539378905 / 162259276829213363391578010288128"]
  by (simp add: round_half_even_def)

lemma to_double_3080462145121419_18014398509481984:
  "to_double (3080462145121419 / 18014398509481984) =
     3080462145121419 / 18014398509481984"
  using to_double_eval [of "- 3" "3080462145121419 / 18014398509481984"]
  by (simp add: round_half_even_def)

lemma to_double_1026820715040473_4503599627370496:
  "to_double (1026820715040473 / 4503599627370496) =
     1026820715040473 / 4503599627370496"
  using to_double_eval [of "- 3" "1026820715040473 / 4503599627370496"]
  by (simp add: round_half_even_def)

lemma to_double_5134103575202365_18014398509481984:
  "to_double (5134103575202365 / 18014398509481984) =
     5134103575202365 / 18014398509481984"
  using to_double_eval [of "- 2" "5134103575202365 / 18014398509481984"]
  by (simp add: round_half_even_def)

lemma to_double_11295027865445203_36028797018963968:
  "to_double (11295027865445203 / 36028797018963968) =
     2823756966361301 / 9007199254740992"
  using to_double_eval [of "- 2" "11295027865445203 / 36028797018963968"]
  by (simp add: round_half_even_def)

lemma to_double_12321848580485677_36028797018963968:
  "to_double (12321848580485677 / 36028797018963968) =
     3080462145121419 / 9007199254740992"
  using to_double_eval [of "- 2" "12321848580485677 / 36028797018963968"]
  by (simp add: round_half_even_def)

lemma to_double_1026820715040473_2251799813685248:
  "to_double (1026820715040473 / 2251799813685248) =
     1026820715040473 / 2251799813685248"
  using to_double_eval [of "- 2" "1026820715040473 / 2251799813685248"]
  by (simp add: round_half_even_def)

lemma to_double_9241386435364257_18014398509481984:
  "to_double (9241386435364257 / 18014398509481984) =
     288793326105133 / 562949953421312"
  using to_double_eval [of "- 1" "9241386435364257 / 18014398509481984"]
  by (simp add: round_half_even_def)

lemma to_double_19509593585768985_36028797018963968:
  "to_double (19509593585768985 / 36028797018963968) =
     2438699198221123 / 4503599627370496"
  using to_double_eval [of "- 1" "19509593585768985 / 36028797018963968"]
  by (simp add: round_half_even_def)

lemma to_double_20536414300809457_36028797018963968:
  "to_double (20536414300809457 / 36028797018963968) =
     1283525893800591 / 2251799813685248"
  using to_double_eval [of "- 1" "20536414300809457 / 36028797018963968"]
  by (simp add: round_half_even_def)

lemma to_double_32088147345014775_562949953421312:
  "to_double (32088147345014775 / 562949953421312) =
     4011018418126847 / 70368744177664"
  using to_double_eval [of "5" "32088147345014775 / 562949953421312"]
  by (simp add: round_half_even_def)

lemma to_double_9_10:
  "to_double (9 / 10) =
     8106479329266893 / 9007199254740992"
  using to_double_eval [of "- 1" "9 / 10"]
  by (simp add: round_half_even_def)

lemma to_double_neg_1_1:
  "to_double ((- 1)) =
     (- 1)"
  using to_double_eval [of "0" "(- 1)"]
  by (simp add: round_half_even_def)

lemma to_double_1_2:
  "to_double (1 / 2) =
     1 / 2"
  using to_double_eval [of "- 1" "1 / 2"]
  by (simp add: round_half_even_def)

lemma to_double_neg_3152519739159347_4503599627370496:
  "to_double ((- (3152519739159347 / 4503599627370496))) =
     (- (3152519739159347 / 4503599627370496))"
  using to_double_eval [of "- 1" "(- (3152519739159347 / 4503599627370496))"]
  by (simp add: round_half_even_def)

lemma to_double_3152519739159347_4503599627370496:
  "to_double (3152519739159347 / 4503599627370496) =
     3152519739159347 / 4503599627370496"
  using to_double_eval [of "- 1" "3152519739159347 / 4503599627370496"]
  by (simp add: round_half_even_def)

lemma to_double_12610078956637389_18014398509481984:
  "to_double (12610078956637389 / 18014398509481984) =
     3152519739159347 / 4503599627370496"
  using to_double_eval [of "- 1" "12610078956637389 / 18014398509481984"]
  by (simp add: round_half_even_def)

lemma to_double_3152519739159347_9007199254740992:
  "to_double (3152519739159347 / 9007199254740992) =
     3152519739159347 / 9007199254740992"
  using to_double_eval [of "- 2" "3152519739159347 / 9007199254740992"]
  by (simp add: round_half_even_def)

lemma to_double_9938380705789317246726257466409_40564819207303340847894502572032:
  "to_double (9938380705789317246726257466409 / 40564819207303340847894502572032) =
     8827055269646171 / 36028797018963968"
  using to_double_eval [of "- 3" "9938380705789317246726257466409 / 40564819207303340847894502572032"]
  by (simp add: round_half_even_def)

lemma to_double_27827465976210086399321677410337_162259276829213363391578010288128:
  "to_double (27827465976210086399321677410337 / 162259276829213363391578010288128) =
     6178938688752319 / 36028797018963968"
  using to_double_eval [of "- 3" "27827465976210086399321677410337 / 162259276829213363391578010288128"]
  by (simp add: round_half_even_def)

lemma to_double_25_9:
  "to_double (25 / 9) =
     3127499741229511 / 1125899906842624"
  using to_double_eval [of "1" "25 / 9"]
  by (simp add: round_half_even_def)

lemma to_double_le_one:
  assumes "x \<le> 1"
  shows "to_double x \<le> 1"
proof -
  have v: "of_int 4503599627370496 * (2::real) powi (0 - 52) = 1"
    by (simp add: power_int_def power_divide)
  have "to_double x \<le> of_int 4503599627370496 * 2 powi (0 - 52)"
    by (rule to_double_le) (simp_all only: v, simp_all add: assms)
  then show ?thesis by (simp only: v)
qed

lemma to_double_le_c07:
  assumes "x \<le> to_double 0.7"
  shows "to_double x \<le> to_double 0.7"
proof -
  have v: "of_int 6305039478318694 * (2::real) powi (- 1 - 52) = to_double 0.7"
    by (simp add: power_int_def power_divide to_double_7_10)
  have "to_double x \<le> of_int 6305039478318694 * 2 powi (- 1 - 52)"
  proof (rule to_double_le)
    show "x \<le> of_int 6305039478318694 * 2 powi (- 1 - 52)"
      using assms by (simp only: v)
    show "of_int 6305039478318694 * 2 powi (- 1 - 52) < (2::real) powi (- 1 + 1)"
      by (simp only: v) (simp add: to_double_7_10)
  qed simp_all
  then show ?thesis by (simp only: v)
qed

section \<open>Properties of the scorer\<close>

text \<open>
  C1. For every confidence score c and flags e, n, \<open>determine_band\<close> returns "watch" when
  e or n is false; otherwise "high_conviction" when c reaches \<open>high_conviction_min\<close>, else
  "actionable" when c reaches \<open>actionable_base_threshold\<close>, else "heads_up" when c lies
  between \<open>headsup_min\<close> and \<open>headsup_max\<close>, else "watch". The band is a function of the
  triple and the thresholds alone.
\<close>

theorem determine_band_rule:
  "determine_band cfg c e n =
     (if \<not> e \<or> \<not> n then ''watch''
      else if c \<ge> high_conviction_min cfg then ''high_conviction''
      else if c \<ge> actionable_base_threshold cfg then ''actionable''
      else if headsup_min cfg \<le> c \<and> c \<le> headsup_max cfg then ''heads_up''
      else ''watch'')"
  by (simp add: determine_band_def)

theorem determine_band_rule_witness:
  "determine_band default_config 90 True True = ''high_conviction''
   \<and> determine_band default_config 72 True True = ''actionable''
   \<and> determine_band default_config 64 True True = ''heads_up''
   \<and> determine_band default_config 30 True True = ''watch''
   \<and> determine_band default_config 90 False True = ''watch''
   \<and> determine_band default_config 90 True False = ''watch''"
  using determine_band_rule [of default_config 90 True True]
    determine_band_rule [of default_config 72 True True]
    determine_band_rule [of default_config 64 True True]
    determine_band_rule [of default_config 30 True True]
    determine_band_rule [of default_config 90 False True]
    determine_band_rule [of default_config 90 True False]
  by (simp add: default_config_def)

text \<open>What does hold of the two steps: the confidence computed from a data quality in
  [0, 1] lies in [0, 100], and the adjustment keeps that range when the risk-on adjustment
  is not negative and the risk-off adjustment is not positive.\<close>

lemma int32_id:
  assumes "INT_MIN \<le> i" and "i \<le> INT_MAX"
  shows "int32 i = i"
  using assms by (simp add: int32_def INT_MIN_def INT_MAX_def)

lemma static_cast_int_floor:
  assumes "0 \<le> x" and "x \<le> 100"
  shows "static_cast_int x = \<lfloor>x\<rfloor>"
proof -
  have "0 \<le> \<lfloor>x\<rfloor>" "\<lfloor>x\<rfloor> \<le> 100"
    using assms by (simp_all add: floor_le_iff le_floor_iff)
  then show ?thesis
    using assms(1) by (simp add: static_cast_int_def INT_MIN_def INT_MAX_def)
qed

lemma low_dq_product_range:
  assumes "0 \<le> dq" and "dq \<le> 1"
  shows "0 \<le> double_mul dq 100 \<and> double_mul dq 100 \<le> 100"
  using assms by (simp add: double_mul_def to_double_nonneg to_double_le_100)

lemma calculate_confidence_range:
  assumes "0 \<le> data_quality signals" and "data_quality signals \<le> 1"
  shows "0 \<le> calculate_confidence cfg signals \<and> calculate_confidence cfg signals \<le> 100"
proof (cases "data_quality signals < min_dq_for_actionable cfg")
  case True
  note range = low_dq_product_range [OF assms]
  have "0 \<le> \<lfloor>double_mul (data_quality signals) 100\<rfloor>"
    using range by simp
  with True range show ?thesis
    by (simp add: calculate_confidence_def static_cast_int_floor)
next
  case False
  then show ?thesis
    by (simp add: calculate_confidence_def Let_def)
qed

lemma apply_risk_adjustment_range:
  assumes "0 \<le> base_score" and "base_score \<le> 100"
    and "0 \<le> risk_on_adj cfg" and "risk_on_adj cfg \<le> 1000"
    and "- 1000 \<le> risk_off_adj cfg" and "risk_off_adj cfg \<le> 0"
  shows "0 \<le> apply_risk_adjustment cfg base_score risk_on
    \<and> apply_risk_adjustment cfg base_score risk_on \<le> 100"
proof -
  have "int32 (base_score + risk_on_adj cfg) = base_score + risk_on_adj cfg"
    "int32 (base_score + risk_off_adj cfg) = base_score + risk_off_adj cfg"
    using assms by (simp_all add: int32_id INT_MIN_def INT_MAX_def)
  then show ?thesis
    using assms by (simp add: apply_risk_adjustment_def)
qed

lemma weighted_sum_zero: "weighted_sum (uniform_signals 0 n dq) = 0"
  by (simp add: weighted_sum_def double_add_def double_mul_def uniform_signals_def)

lemma weighted_sum_one: "weighted_sum (uniform_signals 1 n dq) = 1"
  by (simp add: weighted_sum_def double_add_def double_mul_def uniform_signals_def
      to_double_3_20 to_double_1_10 to_double_1_20 to_double_1_5 to_double_7_10
      to_double_3_10 to_double_5404319552844595_36028797018963968
      to_double_3602879701896397_36028797018963968
      to_double_3602879701896397_72057594037927936
      to_double_3602879701896397_18014398509481984
      to_double_5404319552844595_18014398509481984
      to_double_14411518807585587_36028797018963968
      to_double_18014398509481985_36028797018963968
      to_double_39631676720860365_72057594037927936
      to_double_43234556422756765_72057594037927936
      to_double_14411518807585589_18014398509481984
      to_double_32425917317067573_36028797018963968
      to_double_68454714336031541_72057594037927936
      to_double_72057594037927941_72057594037927936 to_double_100_1 to_double_825_32
      to_double_135107988821114875_4503599627370496 to_double_29_100
      to_double_130604389193744375_4503599627370496 to_double_1_1 to_double_33_128
      to_double_5224175567749775_18014398509481984)

lemma confidence_all_zero: "calculate_confidence default_config (uniform_signals 0 0 1) = 0"
  by (simp add: calculate_confidence_def weighted_sum_zero double_mul_def static_cast_int_def
      int32_def INT_MIN_def INT_MAX_def default_config_def to_double_7_10)
    (simp add: uniform_signals_def)

lemma confidence_all_one: "calculate_confidence default_config (uniform_signals 1 1 1) = 100"
  by (simp add: calculate_confidence_def weighted_sum_one double_mul_def static_cast_int_def
      int32_def INT_MIN_def INT_MAX_def default_config_def to_double_7_10 to_double_100_1)
    (simp add: uniform_signals_def)

text \<open>With every sub-signal at the \<open>double\<close> nearest to 0.57 the weighted sum, rounded
  after each operation, falls just below 0.57, and the confidence is 56 and not 57.\<close>

lemma weighted_sum_057:
  "weighted_sum (uniform_signals (to_double 0.57) n dq) =
     1283525893800591 / 2251799813685248"
  by (simp add: weighted_sum_def double_add_def double_mul_def uniform_signals_def
      to_double_3_20 to_double_1_10 to_double_1_20 to_double_1_5 to_double_7_10
      to_double_3_10 to_double_57_100
      to_double_27746336337795481735238521467175_324518553658426726783156020576256
      to_double_18497557558530322868193539378905_324518553658426726783156020576256
      to_double_18497557558530322868193539378905_649037107316853453566312041152512
      to_double_18497557558530322868193539378905_162259276829213363391578010288128
      to_double_3080462145121419_18014398509481984
      to_double_1026820715040473_4503599627370496
      to_double_5134103575202365_18014398509481984
      to_double_11295027865445203_36028797018963968
      to_double_12321848580485677_36028797018963968
      to_double_1026820715040473_2251799813685248
      to_double_9241386435364257_18014398509481984
      to_double_19509593585768985_36028797018963968
      to_double_20536414300809457_36028797018963968
      to_double_32088147345014775_562949953421312)

lemma confidence_057:
  "calculate_confidence default_config (uniform_signals (to_double 0.57) 1 1) = 56"
proof -
  have product: "double_mul (weighted_sum (uniform_signals (to_double 0.57) 1 1)) 100 =
      4011018418126847 / 70368744177664"
    by (simp only: weighted_sum_057 double_mul_def)
      (simp add: to_double_32088147345014775_562949953421312)
  have fields: "data_quality (uniform_signals s n d) = d"
    "n1_hygiene (uniform_signals s n d) = n" "s7_rug_risk (uniform_signals s n d) = s" for s n d
    by (simp_all add: uniform_signals_def)
  show ?thesis
    unfolding calculate_confidence_def Let_def fields product
    by (simp add: static_cast_int_def INT_MIN_def INT_MAX_def default_config_def
        to_double_7_10 to_double_57_100)
qed

text \<open>Beyond the range of \<open>int\<close>: the cast of 3000000000.0 delivers the least \<open>int\<close>, and
  the risk-off adjustment of the largest \<open>int\<close> wraps around to a negative sum.\<close>

lemma int_range_left:
  "static_cast_int 3000000000 = - 2147483648
   \<and> apply_risk_adjustment default_config 2147483647 False = 0"
  by (simp add: static_cast_int_def INT_MIN_def INT_MAX_def apply_risk_adjustment_def
      int32_def default_config_def)

text \<open>
  C2 (the code at the failing input). With the default configuration and a signal result
  whose sub-signals are all 0 and whose data quality is 1, \<open>calculate_confidence\<close> gives 0
  and \<open>apply_risk_adjustment\<close> under risk-on gives -10: the risk-on branch only bounds
  the sum from above. With all sub-signals 1 the risk-off branch, which only bounds from
  below, gives 110.
\<close>

theorem apply_risk_adjustment_leaves_range:
  "calculate_confidence default_config (uniform_signals 0 0 1) = 0
   \<and> apply_risk_adjustment default_config
        (calculate_confidence default_config (uniform_signals 0 0 1)) True = -10
   \<and> calculate_confidence default_config (uniform_signals 1 1 1) = 100
   \<and> apply_risk_adjustment default_config
        (calculate_confidence default_config (uniform_signals 1 1 1)) False = 110"
  by (simp only: confidence_all_zero confidence_all_one)
    (simp add: apply_risk_adjustment_def int32_def default_config_def)

text \<open>
  C9 (as stated, refuted). The data quality 33/128 = 0.2578125 is a \<open>double\<close> below the
  default threshold, and so is its product with 100, 25.78125. The code returns 25, while
  min(50, round(25.78125)) is 26.
\<close>

theorem low_dq_rounding_counterexample:
  "data_quality (uniform_signals 1 1 (33 / 128)) < min_dq_for_actionable default_config
   \<and> double_mul (33 / 128) 100 = 825 / 32
   \<and> calculate_confidence default_config (uniform_signals 1 1 (33 / 128)) = 25
   \<and> spec_low_dq_confidence (data_quality (uniform_signals 1 1 (33 / 128))) = 26"
  by (simp add: calculate_confidence_def default_config_def uniform_signals_def
      static_cast_int_def INT_MIN_def INT_MAX_def spec_low_dq_confidence_def round_def
      double_mul_def to_double_7_10 to_double_825_32)

text \<open>
  C9 (amended). For every signal result whose data quality, a \<open>double\<close>, lies in [0, 1]
  and is below \<open>min_dq_for_actionable\<close>, \<open>calculate_confidence\<close> returns min(50, floor(p)), where p is
  the \<open>double\<close> product of the data quality and 100, that is the exact product rounded
  to the nearest \<open>double\<close>. The cast truncates p, it does not round it, and the sub-signals
  play no part.
\<close>

theorem low_dq_confidence_truncates:
  assumes "data_quality signals < min_dq_for_actionable cfg"
    and "0 \<le> data_quality signals" and "data_quality signals \<le> 1"
    and "is_double (data_quality signals)"
  shows "calculate_confidence cfg signals = min 50 \<lfloor>double_mul (data_quality signals) 100\<rfloor>"
proof -
  note range = low_dq_product_range [OF assms(2,3)]
  then have "static_cast_int (double_mul (data_quality signals) 100) =
      \<lfloor>double_mul (data_quality signals) 100\<rfloor>"
    by (simp add: static_cast_int_floor)
  then show ?thesis
    using assms(1) by (simp add: calculate_confidence_def)
qed

text \<open>At 33/128 the product is exact and the result is 25. At the \<open>double\<close> nearest to
  0.3 the exact product lies just below 30 and is rounded to 30, which is the result; at
  the \<open>double\<close> nearest to 0.29 the rounded product lies just below 29 and the result is
  28.\<close>

theorem low_dq_confidence_truncates_witness:
  "calculate_confidence default_config (uniform_signals 1 1 (33 / 128)) = 25
   \<and> calculate_confidence default_config (uniform_signals 0 0 (to_double 0.3)) = 30
   \<and> \<lfloor>to_double 0.3 * 100\<rfloor> = 29
   \<and> calculate_confidence default_config (uniform_signals 0 0 (to_double 0.29)) = 28"
proof -
  have dq: "data_quality (uniform_signals s n d) = d" for s n d
    by (simp add: uniform_signals_def)
  have threshold: "min_dq_for_actionable default_config = to_double 0.7"
    by (simp add: default_config_def)
  have a: "data_quality (uniform_signals 1 1 (33 / 128)) < min_dq_for_actionable default_config"
    "0 \<le> data_quality (uniform_signals 1 1 (33 / 128))"
    "data_quality (uniform_signals 1 1 (33 / 128)) \<le> 1"
    "is_double (data_quality (uniform_signals 1 1 (33 / 128)))"
    by (simp_all add: dq threshold is_double_def to_double_7_10 to_double_33_128)
  have b: "data_quality (uniform_signals 0 0 (to_double 0.3)) < min_dq_for_actionable default_config"
    "0 \<le> data_quality (uniform_signals 0 0 (to_double 0.3))"
    "data_quality (uniform_signals 0 0 (to_double 0.3)) \<le> 1"
    "is_double (data_quality (uniform_signals 0 0 (to_double 0.3)))"
    by (simp_all add: dq threshold is_double_def to_double_7_10 to_double_3_10
        to_double_5404319552844595_18014398509481984)
  have c: "data_quality (uniform_signals 0 0 (to_double 0.29)) < min_dq_for_actionable default_config"
    "0 \<le> data_quality (uniform_signals 0 0 (to_double 0.29))"
    "data_quality (uniform_signals 0 0 (to_double 0.29)) \<le> 1"
    "is_double (data_quality (uniform_signals 0 0 (to_double 0.29)))"
    by (simp_all add: dq threshold is_double_def to_double_7_10 to_double_29_100
        to_double_5224175567749775_18014398509481984)
  have products: "double_mul (33 / 128) 100 = 825 / 32"
    "double_mul (to_double 0.3) 100 = 30"
    "double_mul (to_double 0.29) 100 = 8162774324609023 / 281474976710656"
    by (simp_all add: double_mul_def to_double_3_10 to_double_29_100 to_double_825_32
        to_double_135107988821114875_4503599627370496
        to_double_130604389193744375_4503599627370496)
  have "calculate_confidence default_config (uniform_signals 1 1 (33 / 128)) = 25"
    using low_dq_confidence_truncates [OF a] by (simp only: dq products) simp
  moreover have "calculate_confidence default_config (uniform_signals 0 0 (to_double 0.3)) = 30"
    using low_dq_confidence_truncates [OF b] by (simp only: dq products) simp
  moreover have "calculate_confidence default_config (uniform_signals 0 0 (to_double 0.29)) = 28"
    using low_dq_confidence_truncates [OF c] by (simp only: dq products) simp
  moreover have "\<lfloor>to_double 0.3 * 100\<rfloor> = 29"
    by (simp add: to_double_3_10)
  ultimately show ?thesis by simp
qed

section \<open>Properties of the rug-risk signal\<close>

text \<open>
  C10 (as stated, refuted). With metadata present and a negative age the age factor is
  negative, since it is bounded from above only: for an age of -720 hours, no top-holder
  concentration and no risky authority the signal is the negative of the \<open>double\<close> 0.7,
  below the claimed range.
\<close>

theorem s7_negative_age_counterexample:
  "calculate_s7_rug_risk (update_of_age (-720)) (Some (metadata_of 0 False)) = - to_double 0.7
   \<and> \<not> 0 \<le> calculate_s7_rug_risk (update_of_age (-720)) (Some (metadata_of 0 False))"
  by (simp add: calculate_s7_rug_risk_def update_of_age_def metadata_of_def
      double_mul_def double_div_def
      to_double_9_10 to_double_neg_1_1 to_double_1_2
      to_double_neg_3152519739159347_4503599627370496
      to_double_3152519739159347_4503599627370496
      to_double_12610078956637389_18014398509481984
      to_double_3152519739159347_9007199254740992
      to_double_9938380705789317246726257466409_40564819207303340847894502572032
      to_double_27827465976210086399321677410337_162259276829213363391578010288128
      to_double_25_9 to_double_7_10 to_double_3_10 to_double_1_1)

lemma scale_le:
  fixes x c h :: real
  assumes "x \<le> c" and "0 \<le> c" and "0 \<le> h" and "h \<le> 1"
  shows "x * h \<le> c"
proof (cases "0 \<le> x")
  case True
  have "x * h \<le> x * 1" using True assms(4) by (intro mult_left_mono) simp_all
  then show ?thesis using assms(1) by simp
next
  case False
  then have "x * h \<le> 0" using assms(3) by (simp add: mult_nonpos_nonneg)
  then show ?thesis using assms(2) by simp
qed

lemma holder_factor_range:
  "0 \<le> (if 0 < pct then max 0 (double_sub 1 (double_div pct 100)) else 1)
   \<and> (if 0 < pct then max 0 (double_sub 1 (double_div pct 100)) else 1) \<le> 1"
proof (cases "0 < pct")
  case True
  then have "0 \<le> double_div pct 100"
    by (simp add: double_div_def to_double_nonneg)
  then have "double_sub 1 (double_div pct 100) \<le> 1"
    by (simp add: double_sub_def to_double_le_one)
  then show ?thesis using True by simp
next
  case False
  then show ?thesis by simp
qed

lemma c07_range: "0 \<le> to_double 0.7 \<and> to_double 0.7 \<le> 0.7 \<and> to_double 0.7 \<le> to_double 0.9"
  by (simp add: to_double_7_10 to_double_9_10)

text \<open>
  C10 (amended). Without metadata the signal is exactly 0.5. With metadata it is the
  product 0.7 * age_factor * holder_factor * auth_factor, multiplied from left to right
  in \<open>double\<close>, and it never exceeds the \<open>double\<close> 0.7 (which lies below the decimal
  0.7), so the cap at 0.9 never binds; all this for every age. For a non-negative age the
  signal is at least 0.
\<close>

theorem s7_rug_risk_range:
  "calculate_s7_rug_risk upd None = 0.5
   \<and> calculate_s7_rug_risk upd (Some md) =
       double_mul
         (double_mul
            (double_mul (to_double 0.7) (min 1 (double_div (age_hours upd) 720)))
            (if top_holder_pct md > 0
             then max 0 (double_sub 1 (double_div (top_holder_pct md) 100)) else 1))
         (if risky_authorities md then to_double 0.7 else 1)
   \<and> calculate_s7_rug_risk upd (Some md) \<le> to_double 0.7
   \<and> calculate_s7_rug_risk upd (Some md) \<le> 0.7
   \<and> (0 \<le> age_hours upd \<longrightarrow> 0 \<le> calculate_s7_rug_risk upd (Some md))"
proof -
  define c where "c = to_double 0.7"
  define a where "a = min 1 (double_div (age_hours upd) 720)"
  define h where "h = (if top_holder_pct md > 0
    then max 0 (double_sub 1 (double_div (top_holder_pct md) 100)) else 1)"
  define f where "f = (if risky_authorities md then c else 1)"
  define p where "p = double_mul (double_mul (double_mul c a) h) f"
  have c: "0 \<le> c" "c \<le> 0.7" "c \<le> to_double 0.9"
    using c07_range by (simp_all add: c_def)
  have a1: "a \<le> 1" by (simp add: a_def)
  have h: "0 \<le> h" "h \<le> 1"
    using holder_factor_range [of "top_holder_pct md"] by (simp_all add: h_def)
  have f: "0 \<le> f" "f \<le> 1" using c by (simp_all add: f_def)
  have "c * a \<le> c" using a1 c(1) by (simp add: mult_left_le)
  then have p1: "double_mul c a \<le> c"
    unfolding double_mul_def c_def by (rule to_double_le_c07)
  have "double_mul c a * h \<le> c" using p1 c(1) h by (rule scale_le)
  then have p2: "double_mul (double_mul c a) h \<le> c"
    unfolding double_mul_def c_def by (rule to_double_le_c07)
  have "double_mul (double_mul c a) h * f \<le> c" using p2 c(1) f by (rule scale_le)
  then have le: "p \<le> c"
    unfolding p_def double_mul_def c_def by (rule to_double_le_c07)
  have ge: "0 \<le> p" if "0 \<le> age_hours upd"
  proof -
    have "0 \<le> double_div (age_hours upd) 720"
      using that by (simp add: double_div_def to_double_nonneg)
    then have "0 \<le> a" by (simp add: a_def)
    then have "0 \<le> double_mul c a" using c(1) by (simp add: double_mul_def to_double_nonneg)
    then have "0 \<le> double_mul (double_mul c a) h"
      using h(1) by (simp add: double_mul_def to_double_nonneg)
    then show ?thesis
      using f(1) by (simp add: p_def double_mul_def to_double_nonneg)
  qed
  have "calculate_s7_rug_risk upd (Some md) = min (to_double 0.9) p"
    by (simp add: calculate_s7_rug_risk_def Let_def p_def a_def h_def f_def c_def)
  then have eq: "calculate_s7_rug_risk upd (Some md) = p"
    using le c(3) by simp
  have none: "calculate_s7_rug_risk upd None = 0.5"
    using c07_range by (simp add: calculate_s7_rug_risk_def to_double_9_10)
  have "calculate_s7_rug_risk upd None = 0.5
    \<and> calculate_s7_rug_risk upd (Some md) = p
    \<and> calculate_s7_rug_risk upd (Some md) \<le> c
    \<and> calculate_s7_rug_risk upd (Some md) \<le> 0.7
    \<and> (0 \<le> age_hours upd \<longrightarrow> 0 \<le> calculate_s7_rug_risk upd (Some md))"
    using none le c(2) ge by (simp only: eq simp_thms) simp
  then show ?thesis
    unfolding p_def f_def h_def a_def c_def .
qed

text \<open>At an age of 360 hours with a top holder of 30 per cent and risky authorities, at
  2000 hours, and at the negative age of -1440 hours.\<close>

theorem s7_rug_risk_range_witness:
  "calculate_s7_rug_risk (update_of_age 360) None = 0.5
   \<and> calculate_s7_rug_risk (update_of_age 360) (Some (metadata_of 30 True)) =
       6178938688752319 / 36028797018963968
   \<and> calculate_s7_rug_risk (update_of_age 2000) (Some (metadata_of 0 False)) = to_double 0.7
   \<and> calculate_s7_rug_risk (update_of_age (-1440)) (Some (metadata_of 0 False)) \<le> 0.7"
  using s7_rug_risk_range [of "update_of_age 360" "metadata_of 30 True"]
    s7_rug_risk_range [of "update_of_age 2000" "metadata_of 0 False"]
    s7_rug_risk_range [of "update_of_age (-1440)" "metadata_of 0 False"]
  by (simp add: update_of_age_def metadata_of_def double_mul_def double_div_def double_sub_def
      to_double_9_10 to_double_neg_1_1 to_double_1_2
      to_double_neg_3152519739159347_4503599627370496
      to_double_3152519739159347_4503599627370496
      to_double_12610078956637389_18014398509481984
      to_double_3152519739159347_9007199254740992
      to_double_9938380705789317246726257466409_40564819207303340847894502572032
      to_double_27827465976210086399321677410337_162259276829213363391578010288128
      to_double_25_9 to_double_7_10 to_double_3_10 to_double_1_1)


section \<open>Properties of the throttle manager\<close>












section \<open>Properties of the notifier\<close>


text \<open>\<open>log_event\<close> holds the mutex that \<open>check_health\<close> asks for: it never returns and
  writes no row.\<close>

lemma log_event_blocks: "log_event env w ev = (Blocked, w)"
  by (simp add: log_event_def check_health_def)

lemma record_actionable_alert_frame:
  "outbound_stream (record_actionable_alert cfg env w) = outbound_stream w"
  "audit_rows (record_actionable_alert cfg env w) = audit_rows w"
  "k \<noteq> global_throttle_key \<Longrightarrow> redis_keys (record_actionable_alert cfg env w) k = redis_keys w k"
  by (auto simp: record_actionable_alert_def redis_incr_def redis_expire_def
      split: sum.splits option.splits prod.splits if_splits)

lemma is_duplicate_frame:
  "outbound_stream (snd (is_duplicate deps cfg env w a)) = outbound_stream w"
  "audit_rows (snd (is_duplicate deps cfg env w a)) = audit_rows w"
  by (auto simp: is_duplicate_def split: sum.splits prod.splits)

lemma publish_outbound_alert_frame:
  "audit_rows (snd (publish_outbound_alert env w out)) = audit_rows w"
  "redis_keys (snd (publish_outbound_alert env w out)) = redis_keys w"
  by (simp_all add: publish_outbound_alert_def ensure_connection_def)







text \<open>
  No call of the handler returns, and none adds a row to the audit table: either the
  exception of the bus's ping leaves it, or it waits in \<open>log_event\<close> for the mutex it
  holds.
\<close>

lemma handle_inbound_alert_never_returns:
  "run_end (handle_inbound_alert deps cfg env w a) \<noteq> Returned
   \<and> audit_rows (run_world (handle_inbound_alert deps cfg env w a)) = audit_rows w"
proof -
  obtain d w1 where dup: "is_duplicate deps cfg env w a = (d, w1)"
    by (cases "is_duplicate deps cfg env w a")
  then have w1: "audit_rows w1 = audit_rows w"
    using is_duplicate_frame(2) [of deps cfg env w a] by simp
  obtain ok w2 where pub: "publish_outbound_alert env w1
      \<lparr> chat_id = telegram_chat_id cfg, message = format_alert_message deps a \<rparr> = (ok, w2)"
    by (cases "publish_outbound_alert env w1
      \<lparr> chat_id = telegram_chat_id cfg, message = format_alert_message deps a \<rparr>")
  then have w2: "audit_rows w2 = audit_rows w"
    using publish_outbound_alert_frame(1) [of env w1
        "\<lparr> chat_id = telegram_chat_id cfg, message = format_alert_message deps a \<rparr>"] w1
    by simp
  show ?thesis
    by (simp add: handle_inbound_alert_def Let_def log_event_blocks dup pub w1 w2
        record_actionable_alert_frame split: option.splits bool.splits)
qed



text \<open>
  C3 (the code at the failing input). The owner has muted the notifier and the mute key
  is live; with Redis reachable \<open>is_muted\<close> is true. With every Redis operation failing
  \<open>is_muted\<close> answers false, so the mute gate lets the alert through, and the outcome the
  handler sets is the one of a later gate: DUPLICATE for a heads-up alert, THROTTLED for
  an actionable one.
\<close>

theorem mute_gate_open_when_redis_down:
  "is_muted (env_at 1000 True) muted_world
   \<and> \<not> is_muted (env_at 1000 False) muted_world
   \<and> outcome (run_event (handle_inbound_alert sample_deps notifier_config (env_at 1000 False)
        muted_world (sample_alert ''heads_up''))) = ''DUPLICATE''
   \<and> outcome (run_event (handle_inbound_alert sample_deps notifier_config (env_at 1000 False)
        muted_world (sample_alert ''actionable''))) = ''THROTTLED''"
  by (simp add: handle_inbound_alert_def is_muted_def is_globally_throttled_def
      is_duplicate_def log_event_blocks redis_exists_def redis_get_def redis_set_nx_def
      live_def env_at_def muted_world_def sample_alert_def new_event_def Let_def)

text \<open>
  What does hold when the shared connection is down: nothing is appended to the outbound
  stream, and the outcome is THROTTLED for an actionable alert and DUPLICATE otherwise.
\<close>

lemma redis_down_publishes_nothing:
  assumes "\<not> client_up env"
  shows "outbound_stream (run_world (handle_inbound_alert deps cfg env w a)) = outbound_stream w
    \<and> outcome (run_event (handle_inbound_alert deps cfg env w a)) =
        (if severity a = ''actionable'' then ''THROTTLED'' else ''DUPLICATE'')"
  using assms
  by (simp add: handle_inbound_alert_def is_muted_def is_globally_throttled_def
      is_duplicate_def redis_exists_def redis_get_def redis_set_nx_def log_event_blocks
      new_event_def Let_def)




section \<open>Properties of the gateway\<close>

lemmas gateway_defs = handle_command_def handle_guest_login_def handle_local_command_def
  int32_def
  get_user_role_def is_command_allowed_def get_int_arg_def store_guest_pin_def
  get_guest_pin_user_def delete_guest_pin_def set_guest_session_def send_message_def
  audit_guest_login_def audit_auth_denied_def audit_command_used_def publish_audit_event_def
  publish_command_request_def forward_command_def build_args_def role_string_def
  handle_command_reply_def cleanup_round_def cleanup_pending_def cleanup_expired_sessions_def
  is_expired_def residual_ttl_ms_def
  redis_setex_def redis_get_def redis_del_def live_def redis_clock_def guest_pin_key_def
  stoi_def stoll_def parse_integer_def isspace_def isdigit_def digit_value_def to_string_def
  gateway_config_def empty_gateway_def at_second_def command_of_def ticks_per_minute_def Let_def

lemma after_guest_value:
  "pin_keys after_guest = [''guest_pin:123456'' \<mapsto> (''1'', Some 300000)]"
  "guest_sessions after_guest = Map.empty"
  "sent_messages after_guest =
     [(1, ''Guest PIN: <code>123456</code>'' @ [CHR 0x0A] @ ''Valid for 5 minutes'')]"
  by (simp_all add: after_guest_def gateway_defs)

lemma after_login_value:
  "pin_keys after_login = Map.empty"
  "guest_sessions after_login =
     [42 \<mapsto> \<lparr> tg_user_id = 42, role = GUEST, expires_at = 1900000000000 \<rparr>]"
  "sent_messages after_login = sent_messages after_guest @
     [(42, ''Guest access granted! Use /help for available commands.'')]"
  by (simp_all add: after_login_def after_guest_value gateway_defs)

text \<open>The seconds of a PIN are computed in \<open>int\<close>: for /guest 35791395 the product
  wraps around to a negative number, Redis refuses the time to live, and the owner is told
  that no PIN was generated.\<close>

lemma guest_minutes_overflow:
  "int32 (35791395 * 60) = - 2147483596
   \<and> sent_messages (handle_command gateway_config (at_second 0 ''u0'') empty_gateway
        (command_of ''guest'' [''35791395'']) 1 1) = [(1, ''Failed to generate guest PIN'')]
   \<and> pin_keys (handle_command gateway_config (at_second 0 ''u0'') empty_gateway
        (command_of ''guest'' [''35791395'']) 1 1) = Map.empty"
  by (simp add: gateway_defs)

text \<open>
  C6 (the code at the failing input). The owner's /guest 5 stores the PIN for 300
  seconds. When user 42 sends /start with the PIN 100 seconds later the PIN has 200
  seconds left, yet the session installed runs for 1800 seconds, the configured default of
  thirty minutes: \<open>handle_guest_login\<close> passes \<open>guest_default_minutes\<close>, not the PIN's time
  to live. The PIN is deleted, and user 43's later /start with it is answered with the
  invalid-or-expired message and installs no session.
\<close>

theorem guest_session_ignores_pin_ttl:
  "residual_ttl_ms (pin_keys after_guest) (redis_clock (at_second 100 ''u1''))
      (guest_pin_key ''123456'') = Some 200000
   \<and> map_option (\<lambda>session. expires_at session - clock (at_second 100 ''u1''))
        (guest_sessions after_login 42) = Some (1800 * 1000000000)
   \<and> pin_keys after_login (guest_pin_key ''123456'') = None
   \<and> sent_messages after_second_login =
        sent_messages after_login @ [(43, ''Invalid or expired PIN'')]
   \<and> guest_sessions after_second_login 43 = None"
  by (simp add: after_second_login_def after_login_value after_guest_value gateway_defs)

text \<open>The parts of the guest login that hold in general: a valid PIN installs a session of
  the configured default length and is deleted, and a /start whose PIN is not stored only
  sends the invalid-or-expired message.\<close>

lemma guest_login_valid_pin:
  assumes "get_guest_pin_user env st pin = Some owner_id"
  shows "guest_sessions (handle_guest_login cfg env st pin uid chat) uid =
           Some \<lparr> tg_user_id = uid, role = GUEST,
                  expires_at = clock env + guest_default_minutes cfg * ticks_per_minute \<rparr>
    \<and> pin_keys (handle_guest_login cfg env st pin uid chat) (guest_pin_key pin) = None"
proof -
  have "redis_up env"
    using assms by (auto simp: get_guest_pin_user_def redis_get_def split: if_splits)
  then show ?thesis
    using assms
    by (simp add: handle_guest_login_def set_guest_session_def delete_guest_pin_def
        redis_del_def send_message_def audit_guest_login_def publish_audit_event_def Let_def)
qed

lemma guest_login_unknown_pin:
  assumes "pin_keys st (guest_pin_key pin) = None"
  shows "handle_guest_login cfg env st pin uid chat = send_message st chat ''Invalid or expired PIN''"
  using assms
  by (simp add: handle_guest_login_def get_guest_pin_user_def redis_get_def live_def)



















section \<open>Properties of the ingestor tick\<close>

lemma create_updates_pool_ids:
  "map update_pool_id (create_updates uuid_of now i pools) = map pool_id pools"
  by (induction pools arbitrary: i) (simp_all add: create_market_update_def)

lemma calculate_additional_metrics_keeps:
  "tvl_usd (calculate_additional_metrics pool) = tvl_usd pool"
  "volume_24h_usd (calculate_additional_metrics pool) = volume_24h_usd pool"
  "pool_id (calculate_additional_metrics pool) = pool_id pool"
  by (simp_all add: calculate_additional_metrics_def Let_def)

text \<open>The DEX client keeps a pool only when it reaches both thresholds, so the tick's own
  filter removes none of the pools the client returns.\<close>

lemma fetch_pools_meets_both:
  assumes "pool \<in> set (fetch_pools cfg raydium_pools orca_pools)"
  shows "tvl_usd pool \<ge> min_tvl_threshold cfg \<and> volume_24h_usd pool \<ge> min_volume_threshold cfg"
  using assms by (auto simp: fetch_pools_def calculate_additional_metrics_keeps)

lemma tick_keeps_all_fetched:
  "cached_pools (tick cfg uuid_of now raydium_pools orca_pools) =
     fetch_pools cfg raydium_pools orca_pools"
proof -
  have "\<forall>pool \<in> set (fetch_pools cfg raydium_pools orca_pools).
      tvl_usd pool \<ge> min_tvl_threshold cfg \<or> volume_24h_usd pool \<ge> min_volume_threshold cfg"
    using fetch_pools_meets_both by blast
  then show ?thesis by (simp add: tick_def Let_def)
qed

lemma tick_publishes_cached:
  "map update_pool_id (published_updates (tick cfg uuid_of now raydium_pools orca_pools)) =
     map pool_id (cached_pools (tick cfg uuid_of now raydium_pools orca_pools))"
proof -
  have same: "(if u \<noteq> [] then u else []) = u" for u :: "PoolUpdate list"
    by simp
  show ?thesis
    by (simp add: tick_def Let_def same create_updates_pool_ids)
qed

text \<open>
  What a tick retains: of the pools the exchanges answered, exactly those that reach the
  TVL threshold and the volume threshold, in their order and with the metrics filled in.
\<close>

lemma tick_retains_by_conjunction:
  "map pool_id (cached_pools (tick cfg uuid_of now raydium_pools orca_pools)) =
     map pool_id (filter (\<lambda>pool. tvl_usd pool \<ge> min_tvl_threshold cfg
                                 \<and> volume_24h_usd pool \<ge> min_volume_threshold cfg)
                    (raydium_pools @ orca_pools))"
proof -
  have fetched: "map pool_id (fetch_pools cfg raydium_pools orca_pools) =
      map pool_id (filter (\<lambda>pool. \<not> (tvl_usd pool < min_tvl_threshold cfg
                                       \<or> volume_24h_usd pool < min_volume_threshold cfg))
                     (raydium_pools @ orca_pools))"
    unfolding fetch_pools_def by (simp add: calculate_additional_metrics_keeps comp_def)
  have both: "(\<lambda>pool. \<not> (tvl_usd pool < min_tvl_threshold cfg
                             \<or> volume_24h_usd pool < min_volume_threshold cfg)) =
      (\<lambda>pool. tvl_usd pool \<ge> min_tvl_threshold cfg
               \<and> volume_24h_usd pool \<ge> min_volume_threshold cfg)"
    by (auto simp: fun_eq_iff)
  show ?thesis
    by (simp only: tick_keeps_all_fetched fetched both)
qed

text \<open>
  C7 (the code at the failing input). Raydium answers with the four sample pools and Orca
  with none. The pool \<open>busy\<close> has a 24-hour volume of 2000, above the volume threshold of
  1000, so it meets the disjunction that \<open>Service::tick\<close> tests; its TVL of 100 is below
  the TVL threshold of 25000. The tick caches and publishes \<open>both\<close> only: \<open>busy\<close> (and
  \<open>deep\<close>, which reaches the TVL threshold alone) has been erased by
  \<open>DexClient::fetch_pools\<close> before the tick's filter sees it.
\<close>

theorem tick_drops_pool_meeting_one_threshold:
  "pool_of ''busy'' 100 2000 \<in> set sample_pools
   \<and> volume_24h_usd (pool_of ''busy'' 100 2000) \<ge> min_volume_threshold ingestor_config
   \<and> tvl_usd (pool_of ''busy'' 100 2000) < min_tvl_threshold ingestor_config
   \<and> map pool_id (fetch_pools ingestor_config sample_pools []) = [''both'']
   \<and> map pool_id (cached_pools (tick ingestor_config sample_uuid 0 sample_pools [])) = [''both'']
   \<and> map update_pool_id (published_updates (tick ingestor_config sample_uuid 0 sample_pools []))
       = [''both'']
   \<and> ''busy'' \<notin> set (map pool_id (cached_pools (tick ingestor_config sample_uuid 0 sample_pools [])))"
proof -
  have fetched: "map pool_id (fetch_pools ingestor_config sample_pools []) = [''both'']"
    unfolding fetch_pools_def
    by (simp add: calculate_additional_metrics_keeps comp_def sample_pools_def pool_of_def
        ingestor_config_def)
  have cached: "map pool_id (cached_pools (tick ingestor_config sample_uuid 0 sample_pools []))
      = [''both'']"
    by (simp only: tick_keeps_all_fetched fetched)
  have published: "map update_pool_id
      (published_updates (tick ingestor_config sample_uuid 0 sample_pools [])) = [''both'']"
    by (simp only: tick_publishes_cached cached)
  show ?thesis
    by (simp only: fetched cached published)
      (simp add: sample_pools_def pool_of_def ingestor_config_def)
qed

end
